theory Spec2Isabelle
  imports Main
begin

section \<open>Strings and character classes\<close>

text \<open>
  A Python \<open>str\<close> is modelled as a \<open>string\<close>: one \<open>char\<close> per code point, so the
  texts of this development are the texts whose code points are below 256 (Latin-1).
  The character classes below are Python's (\<open>str.isspace\<close>, \<open>\s\<close>, \<open>\d\<close>, \<open>\w\<close>,
  \<open>str.lower\<close>, \<open>str.upper\<close>) restricted to that range.
\<close>

definition is_space :: "char \<Rightarrow> bool" where
  "is_space c \<longleftrightarrow> c \<in> set [CHR 0x09, CHR 0x0A, CHR 0x0B, CHR 0x0C, CHR 0x0D,
     CHR 0x1C, CHR 0x1D, CHR 0x1E, CHR 0x1F, CHR 0x20, CHR 0x85, CHR 0xA0]"

definition is_digit :: "char \<Rightarrow> bool" where
  "is_digit c \<longleftrightarrow> c \<in> set ''0123456789''"

definition is_upper_ascii :: "char \<Rightarrow> bool" where
  "is_upper_ascii c \<longleftrightarrow> c \<in> set ''ABCDEFGHIJKLMNOPQRSTUVWXYZ''"

definition is_lower_ascii :: "char \<Rightarrow> bool" where
  "is_lower_ascii c \<longleftrightarrow> c \<in> set ''abcdefghijklmnopqrstuvwxyz''"

text \<open>\<open>\w\<close>: \<open>str.isalnum\<close> or the underscore.\<close>

definition is_word :: "char \<Rightarrow> bool" where
  "is_word c \<longleftrightarrow> is_digit c \<or> is_upper_ascii c \<or> is_lower_ascii c \<or> c = CHR ''_'' \<or>
     (let n = (of_char c :: nat) in
        n \<in> set [0xAA, 0xB2, 0xB3, 0xB5, 0xB9, 0xBA, 0xBC, 0xBD, 0xBE] \<or>
        (0xC0 \<le> n \<and> n \<le> 0xD6) \<or> (0xD8 \<le> n \<and> n \<le> 0xF6) \<or> 0xF8 \<le> n)"

text \<open>\<open>str.lower\<close> on one character: A-Z and the Latin-1 capitals move up by 32.\<close>

definition lower_char :: "char \<Rightarrow> char" where
  "lower_char c =
     (let n = (of_char c :: nat) in
      if (0x41 \<le> n \<and> n \<le> 0x5A) \<or> (0xC0 \<le> n \<and> n \<le> 0xDE \<and> n \<noteq> 0xD7)
      then char_of (n + 32) else c)"

definition lower :: "string \<Rightarrow> string" where
  "lower s = map lower_char s"

text \<open>
  \<open>str.upper\<close> on one character whose capital is again a single Latin-1 character
  (the source calls \<open>upper\<close> only on a capture of the letter I).
\<close>

definition upper_char :: "char \<Rightarrow> char" where
  "upper_char c =
     (let n = (of_char c :: nat) in
      if (0x61 \<le> n \<and> n \<le> 0x7A) \<or> (0xE0 \<le> n \<and> n \<le> 0xFE \<and> n \<noteq> 0xF7)
      then char_of (n - 32) else c)"

definition upper :: "string \<Rightarrow> string" where
  "upper s = map upper_char s"

text \<open>\<open>str.strip()\<close>: whitespace removed at both ends.\<close>

definition lstrip :: "string \<Rightarrow> string" where
  "lstrip s = dropWhile is_space s"

definition rstrip :: "string \<Rightarrow> string" where
  "rstrip s = rev (dropWhile is_space (rev s))"

definition strip :: "string \<Rightarrow> string" where
  "strip s = rstrip (lstrip s)"

text \<open>Python truthiness of an \<open>Optional[str]\<close>: \<open>None\<close> and the empty string are false.\<close>

fun truthy :: "string option \<Rightarrow> bool" where
  "truthy None = False"
| "truthy (Some s) = (s \<noteq> [])"

text \<open>\<open>x or ""\<close>.\<close>

fun or_empty :: "string option \<Rightarrow> string" where
  "or_empty None = []"
| "or_empty (Some s) = s"

text \<open>\<open>sub in s\<close> on strings.\<close>

fun starts_with :: "string \<Rightarrow> string \<Rightarrow> bool" where
  "starts_with [] s = True"
| "starts_with (p # ps) [] = False"
| "starts_with (p # ps) (c # s) = (p = c \<and> starts_with ps s)"

fun contains :: "string \<Rightarrow> string \<Rightarrow> bool" where
  "contains sub [] = (sub = [])"
| "contains sub (c # s) = (starts_with sub (c # s) \<or> contains sub s)"

text \<open>\<open>str.replace(old, new)\<close> for a one-character \<open>old\<close> and \<open>new\<close>.\<close>

definition replace_char :: "char \<Rightarrow> char \<Rightarrow> string \<Rightarrow> string" where
  "replace_char old new s = map (\<lambda>c. if c = old then new else c) s"

section \<open>Regular expressions\<close>

text \<open>
  The fragment of Python's \<open>re\<close> that the patterns of this program use, as a backtracking
  matcher. A match state is the character before the position (for \<open>^\<close> and \<open>\b\<close>),
  the text from the position on, the buffers of the groups that are open, and the
  groups captured so far (most recent first). \<open>matches r st\<close> lists the
  states after a match of \<open>r\<close> from \<open>st\<close>, in the order in which the backtracking
  engine tries them: the head is the match that \<open>re\<close> reports.
\<close>

datatype re =
    Chr "char \<Rightarrow> bool"
  | Eps
  | Seq re re
  | Alt re re
  | Rep nat "nat option" re
  | Grp nat re
  | Bol bool
  | Eol bool
  | Wb

type_synonym mstate = "char option \<times> string \<times> string list \<times> (nat \<times> string) list"

definition st_rest :: "mstate \<Rightarrow> string" where
  "st_rest st = fst (snd st)"

text \<open>Greedy repetition of a matcher \<open>f\<close>, between \<open>lo\<close> and \<open>hi\<close> times, longest first.\<close>

fun rep_m :: "(mstate \<Rightarrow> mstate list) \<Rightarrow> nat \<Rightarrow> nat \<Rightarrow> mstate \<Rightarrow> mstate list" where
  "rep_m f lo hi st =
     (if hi = 0 then (if lo = 0 then [st] else [])
      else concat (map (rep_m f (lo - 1) (hi - 1)) (f st)) @ (if lo = 0 then [st] else []))"

declare rep_m.simps [simp del]

definition step_chr :: "(char \<Rightarrow> bool) \<Rightarrow> mstate \<Rightarrow> mstate list" where
  "step_chr p st =
     (case st of (pv, s, opn, caps) \<Rightarrow>
        (case s of [] \<Rightarrow> []
         | c # s' \<Rightarrow> if p c then [(Some c, s', map ((#) c) opn, caps)] else []))"

definition open_group :: "mstate \<Rightarrow> mstate" where
  "open_group st = (case st of (pv, s, opn, caps) \<Rightarrow> (pv, s, [] # opn, caps))"

definition close_group :: "nat \<Rightarrow> mstate \<Rightarrow> mstate" where
  "close_group i st =
     (case st of (pv, s, opn, caps) \<Rightarrow>
        (case opn of [] \<Rightarrow> (pv, s, [], caps)
         | b # bs \<Rightarrow> (pv, s, bs, (i, rev b) # caps)))"

text \<open>\<open>^\<close>: at the start of the text; in multi-line mode also after a newline.\<close>

definition at_bol :: "bool \<Rightarrow> mstate \<Rightarrow> bool" where
  "at_bol ml st =
     (case st of (pv, s, opn, caps) \<Rightarrow>
        (case pv of None \<Rightarrow> True | Some c \<Rightarrow> ml \<and> c = CHR 0x0A))"

text \<open>
  \<open>$\<close>: at the end of the text or before a newline that ends it; in multi-line mode
  before any newline.
\<close>

definition at_eol :: "bool \<Rightarrow> mstate \<Rightarrow> bool" where
  "at_eol ml st =
     (case st of (pv, s, opn, caps) \<Rightarrow>
        (case s of [] \<Rightarrow> True | c # s' \<Rightarrow> c = CHR 0x0A \<and> (ml \<or> s' = [])))"

text \<open>\<open>\b\<close>: exactly one of the two neighbours is a word character.\<close>

definition at_wb :: "mstate \<Rightarrow> bool" where
  "at_wb st =
     (case st of (pv, s, opn, caps) \<Rightarrow>
        (case pv of None \<Rightarrow> False | Some c \<Rightarrow> is_word c) \<noteq>
        (case s of [] \<Rightarrow> False | c # s' \<Rightarrow> is_word c))"

primrec matches :: "re \<Rightarrow> mstate \<Rightarrow> mstate list" where
  "matches (Chr p) st = step_chr p st"
| "matches Eps st = [st]"
| "matches (Seq a b) st = concat (map (matches b) (matches a st))"
| "matches (Alt a b) st = matches a st @ matches b st"
| "matches (Rep lo hi r) st =
     rep_m (matches r) lo (case hi of None \<Rightarrow> length (st_rest st) | Some h \<Rightarrow> h) st"
| "matches (Grp i r) st = map (close_group i) (matches r (open_group st))"
| "matches (Bol ml) st = (if at_bol ml st then [st] else [])"
| "matches (Eol ml) st = (if at_eol ml st then [st] else [])"
| "matches Wb st = (if at_wb st then [st] else [])"

text \<open>The number of capturing groups of a pattern (\<open>re.Pattern.groups\<close>).\<close>

primrec ngroups :: "re \<Rightarrow> nat" where
  "ngroups (Chr p) = 0"
| "ngroups Eps = 0"
| "ngroups (Seq a b) = ngroups a + ngroups b"
| "ngroups (Alt a b) = ngroups a + ngroups b"
| "ngroups (Rep lo hi r) = ngroups r"
| "ngroups (Grp i r) = Suc (ngroups r)"
| "ngroups (Bol ml) = 0"
| "ngroups (Eol ml) = 0"
| "ngroups Wb = 0"

text \<open>
  A match object: the text before the match, the captures (group 0 is the whole
  match), the character before the end of the match and the text after it.
\<close>

record rmatch =
  m_before :: string
  m_caps :: "(nat \<times> string) list"
  m_last :: "char option"
  m_after :: string

definition mk_match :: "mstate \<Rightarrow> rmatch" where
  "mk_match st =
     (case st of (pv, s, opn, caps) \<Rightarrow>
        \<lparr>m_before = [], m_caps = caps, m_last = pv, m_after = s\<rparr>)"

definition shift_match :: "char \<Rightarrow> rmatch \<Rightarrow> rmatch" where
  "shift_match c m = m\<lparr>m_before := c # m_before m\<rparr>"

text \<open>
  \<open>pattern.search\<close> from a position whose previous character is \<open>pv\<close>: the leftmost
  start position that has a match, and there the first match in backtracking order.
\<close>

fun search_at :: "re \<Rightarrow> char option \<Rightarrow> string \<Rightarrow> rmatch option" where
  "search_at r pv [] =
     (case matches (Grp 0 r) (pv, [], [], []) of [] \<Rightarrow> None | st # _ \<Rightarrow> Some (mk_match st))"
| "search_at r pv (c # s) =
     (case matches (Grp 0 r) (pv, c # s, [], []) of
        [] \<Rightarrow> map_option (shift_match c) (search_at r (Some c) s)
      | st # _ \<Rightarrow> Some (mk_match st))"

definition re_search :: "re \<Rightarrow> string \<Rightarrow> rmatch option" where
  "re_search r text = search_at r None text"

text \<open>\<open>m.group(i)\<close> and \<open>m.groups()\<close> (\<open>None\<close> for a group that took no part).\<close>

definition m_group :: "rmatch \<Rightarrow> nat \<Rightarrow> string option" where
  "m_group m i = map_of (m_caps m) i"

definition m_groups :: "re \<Rightarrow> rmatch \<Rightarrow> string option list" where
  "m_groups r m = map (m_group m) [1..<Suc (ngroups r)]"

text \<open>
  \<open>re.sub(pattern, repl, text)\<close> for a literal replacement: every non-overlapping
  match, left to right, is replaced; after an empty match one character is copied.
\<close>

fun sub_from :: "re \<Rightarrow> string \<Rightarrow> char option \<Rightarrow> string \<Rightarrow> string" where
  "sub_from r repl pv s =
     (case search_at r pv s of
        None \<Rightarrow> s
      | Some m \<Rightarrow>
          m_before m @ repl @
          (if length (m_after m) < length s then sub_from r repl (m_last m) (m_after m)
           else (case m_after m of [] \<Rightarrow> []
                 | c # s' \<Rightarrow>
                     if length s' < length s then c # sub_from r repl (Some c) s' else c # s')))"

declare sub_from.simps [simp del]

definition re_sub :: "re \<Rightarrow> string \<Rightarrow> string \<Rightarrow> string" where
  "re_sub r repl text = sub_from r repl None text"

text \<open>Building blocks for writing the patterns of the source.\<close>

definition ieq :: "char \<Rightarrow> char \<Rightarrow> bool" where
  "ieq x c \<longleftrightarrow> lower_char c = lower_char x"

definition lit :: "string \<Rightarrow> re" where
  "lit s = foldr (\<lambda>c r. Seq (Chr ((=) c)) r) s Eps"

definition ilit :: "string \<Rightarrow> re" where
  "ilit s = foldr (\<lambda>c r. Seq (Chr (ieq c)) r) s Eps"

definition seqs :: "re list \<Rightarrow> re" where
  "seqs rs = foldr Seq rs Eps"

definition star :: "re \<Rightarrow> re" where
  "star r = Rep 0 None r"

definition plus :: "re \<Rightarrow> re" where
  "plus r = Rep 1 None r"

definition opt :: "re \<Rightarrow> re" where
  "opt r = Rep 0 (Some 1) r"

definition one_of :: "string \<Rightarrow> char \<Rightarrow> bool" where
  "one_of cs c \<longleftrightarrow> c \<in> set cs"

definition not_newline :: "char \<Rightarrow> bool" where
  "not_newline c \<longleftrightarrow> c \<noteq> CHR 0x0A"

definition any_char :: "char \<Rightarrow> bool" where
  "any_char c \<longleftrightarrow> True"

section \<open>Configuration: the register columns and the pattern table\<close>

definition REGISTER_HEADERS :: "string list" where
  "REGISTER_HEADERS =
     [''Product Name'', ''Vendor / Manufacturer'', ''Quantity'', ''Location'', ''CAS Number'',
      ''SDS Available'', ''Issue Date (DD/MM/YYYY)'', ''Hazardous Substance'', ''Dangerous Good'',
      ''Dangerous Goods Class'', ''Description'', ''Packing group'', ''Subsidiary Risk(s)'',
      ''Consequence'', ''Likelihood'', ''Risk Rating'', ''Safe Work Procedure (SWP) Requirement'',
      ''Comments/SWP'', ''Barcode'']"

text \<open>The label separator \<open>\s*[:\-]?\s*\<close> that most patterns share.\<close>

definition label_sep :: re where
  "label_sep = seqs [star (Chr is_space), opt (Chr (one_of '':-'')), star (Chr is_space)]"

text \<open>\<open>(.+)\<close> without \<open>re.S\<close>: the rest of the line.\<close>

definition rest_of_line :: re where
  "rest_of_line = Grp 1 (plus (Chr not_newline))"

text \<open>\<open>Product Identifier\s*[:\-]?\s*(.+)\<close>, \<open>re.I\<close>\<close>

definition re_product_identifier :: re where
  "re_product_identifier = seqs [ilit ''Product Identifier'', label_sep, rest_of_line]"

text \<open>\<open>^\s*Product Name\s*[:\-]?\s*(.+)$\<close>, \<open>re.I | re.M\<close>\<close>

definition re_product_name :: re where
  "re_product_name =
     seqs [Bol True, star (Chr is_space), ilit ''Product Name'', label_sep, rest_of_line, Eol True]"

text \<open>\<open>^\s*Trade Name\s*[:\-]?\s*(.+)$\<close>, \<open>re.I | re.M\<close>\<close>

definition re_trade_name :: re where
  "re_trade_name =
     seqs [Bol True, star (Chr is_space), ilit ''Trade Name'', label_sep, rest_of_line, Eol True]"

text \<open>\<open>Manufacturer(?:/Supplier)?\s*[:\-]?\s*(.+)\<close>, \<open>re.I\<close>\<close>

definition re_manufacturer :: re where
  "re_manufacturer = seqs [ilit ''Manufacturer'', opt (ilit ''/Supplier''), label_sep, rest_of_line]"

text \<open>\<open>Company Name\s*[:\-]?\s*(.+)\<close>, \<open>re.I\<close>\<close>

definition re_company_name :: re where
  "re_company_name = seqs [ilit ''Company Name'', label_sep, rest_of_line]"

text \<open>\<open>Supplier\s*[:\-]?\s*(.+)\<close>, \<open>re.I\<close>\<close>

definition re_supplier :: re where
  "re_supplier = seqs [ilit ''Supplier'', label_sep, rest_of_line]"

text \<open>\<open>\d{1,2}[/-]\d{1,2}[/-]\d{2,4}\<close>\<close>

definition re_date_token :: re where
  "re_date_token =
     seqs [Rep 1 (Some 2) (Chr is_digit), Chr (one_of ''/-''), Rep 1 (Some 2) (Chr is_digit),
           Chr (one_of ''/-''), Rep 2 (Some 4) (Chr is_digit)]"

text \<open>
  \<open>(Revision|Issue|Date of issue|Version date)\s*[:\-]?\s*(\d{1,2}[/-]\d{1,2}[/-]\d{2,4})\<close>,
  \<open>re.I\<close>
\<close>

definition re_issue_date :: re where
  "re_issue_date =
     seqs [Grp 1 (Alt (ilit ''Revision'') (Alt (ilit ''Issue'')
                   (Alt (ilit ''Date of issue'') (ilit ''Version date'')))),
           label_sep, Grp 2 re_date_token]"

text \<open>\<open>(Prepared|Last revised)\s*[:\-]?\s*(\d{1,2}[/-]\d{1,2}[/-]\d{2,4})\<close>, \<open>re.I\<close>\<close>

definition re_prepared :: re where
  "re_prepared =
     seqs [Grp 1 (Alt (ilit ''Prepared'') (ilit ''Last revised'')), label_sep, Grp 2 re_date_token]"

text \<open>
  \<open>\b(?:Dangerous\s+Goods\s*)?Class(?:/Division)?\s*[:\-]?\s*([0-9A-Za-z\.]+)\b\<close>, \<open>re.I\<close>
\<close>

definition re_dg_class :: re where
  "re_dg_class =
     seqs [Wb,
           opt (seqs [ilit ''Dangerous'', plus (Chr is_space), ilit ''Goods'', star (Chr is_space)]),
           ilit ''Class'', opt (ilit ''/Division''), label_sep,
           Grp 1 (plus (Chr (\<lambda>c. is_digit c \<or> is_upper_ascii c \<or> is_lower_ascii c \<or> c = CHR ''.''))),
           Wb]"

text \<open>\<open>\bUN\s*(\d{3,4})\b\<close>, \<open>re.I\<close>\<close>

definition re_un_number :: re where
  "re_un_number =
     seqs [Wb, ilit ''UN'', star (Chr is_space), Grp 1 (Rep 3 (Some 4) (Chr is_digit)), Wb]"

text \<open>\<open>(I{1,3}|II|III)\<close>, \<open>re.I\<close>\<close>

definition re_roman :: re where
  "re_roman = Grp 1 (Alt (Rep 1 (Some 3) (Chr (ieq CHR ''I''))) (Alt (ilit ''II'') (ilit ''III'')))"

text \<open>\<open>Packing\s+Group\s*[:\-]?\s*(I{1,3}|II|III)\b\<close>, \<open>re.I\<close>\<close>

definition re_packing_group :: re where
  "re_packing_group =
     seqs [ilit ''Packing'', plus (Chr is_space), ilit ''Group'', label_sep, re_roman, Wb]"

text \<open>\<open>Subsidiary Risk[s]?\s*[:\-]?\s*(.+)\<close>, \<open>re.I\<close>\<close>

definition re_subsidiary :: re where
  "re_subsidiary =
     seqs [ilit ''Subsidiary Risk'', opt (Chr (ieq CHR ''s'')), label_sep, rest_of_line]"

text \<open>\<open>\bCAS(?: No\.| Number)?\s*[:\-]?\s*([0-9]{2,7}-[0-9]{2}-[0-9])\<close>, \<open>re.I\<close>\<close>

definition re_cas :: re where
  "re_cas =
     seqs [Wb, ilit ''CAS'', opt (Alt (ilit '' No.'') (ilit '' Number'')), label_sep,
           Grp 1 (seqs [Rep 2 (Some 7) (Chr is_digit), lit ''-'', Rep 2 (Some 2) (Chr is_digit),
                        lit ''-'', Chr is_digit])]"

text \<open>\<open>(Yes|No)\b\<close>, \<open>re.I\<close>\<close>

definition re_yes_no :: re where
  "re_yes_no = Seq (Grp 1 (Alt (ilit ''Yes'') (ilit ''No''))) Wb"

text \<open>\<open>Hazardous Substance\s*[:\-]?\s*(Yes|No)\b\<close>, \<open>re.I\<close>\<close>

definition re_hazardous_substance :: re where
  "re_hazardous_substance = seqs [ilit ''Hazardous Substance'', label_sep, re_yes_no]"

text \<open>\<open>Dangerous Goods?\s*[:\-]?\s*(Yes|No)\b\<close>, \<open>re.I\<close>\<close>

definition re_dangerous_good :: re where
  "re_dangerous_good =
     seqs [ilit ''Dangerous Good'', opt (Chr (ieq CHR ''s'')), label_sep, re_yes_no]"

text \<open>\<open>Section\s*2[^\n]*\n(.{0,800})\<close>, \<open>re.I | re.S\<close>\<close>

definition re_section2 :: re where
  "re_section2 =
     seqs [ilit ''Section'', star (Chr is_space), lit ''2'', star (Chr not_newline),
           Chr ((=) (CHR 0x0A)), Grp 1 (Rep 0 (Some 800) (Chr any_char))]"

definition PATTERNS :: "(string \<times> re list) list" where
  "PATTERNS =
     [(''product_name'', [re_product_identifier, re_product_name, re_trade_name]),
      (''vendor'', [re_manufacturer, re_company_name, re_supplier]),
      (''issue_date'', [re_issue_date, re_prepared]),
      (''dangerous_goods_class'', [re_dg_class]),
      (''un_number'', [re_un_number]),
      (''packing_group'', [re_packing_group]),
      (''subsidiary_risks'', [re_subsidiary]),
      (''cas_number'', [re_cas]),
      (''hazardous_substance'', [re_hazardous_substance]),
      (''dangerous_good'', [re_dangerous_good]),
      (''description_section2'', [re_section2])]"

text \<open>
  \<open>PATTERNS[key]\<close>. The source indexes the table with literal keys that are all
  present, so the \<open>KeyError\<close> of a missing key cannot occur there.
\<close>

definition patterns_for :: "string \<Rightarrow> re list" where
  "patterns_for key = (case map_of PATTERNS key of None \<Rightarrow> [] | Some ps \<Rightarrow> ps)"

definition DATE_FORMATS_IN :: "string list" where
  "DATE_FORMATS_IN = [''%d/%m/%Y'', ''%d-%m-%Y'', ''%d/%m/%y'', ''%Y-%m-%d'', ''%m/%d/%Y'']"

section \<open>The data model\<close>

record ParsedRecord =
  product_name :: "string option"
  vendor :: "string option"
  quantity :: "string option"
  location :: "string option"
  cas_number :: "string option"
  sds_available :: string
  issue_date :: "string option"
  hazardous_substance :: "string option"
  dangerous_good :: "string option"
  dangerous_goods_class :: "string option"
  description :: "string option"
  packing_group :: "string option"
  subsidiary_risks :: "string option"
  consequence :: "string option"
  likelihood :: "string option"
  risk_rating :: "string option"
  swp_requirement :: "string option"
  comments_swp :: "string option"
  barcode :: "string option"

text \<open>\<open>ParsedRecord()\<close>: every field at its default.\<close>

definition new_record :: ParsedRecord where
  "new_record =
     \<lparr>product_name = None, vendor = None, quantity = None, location = None, cas_number = None,
      sds_available = ''Yes'', issue_date = None, hazardous_substance = None,
      dangerous_good = None, dangerous_goods_class = None, description = None,
      packing_group = None, subsidiary_risks = None, consequence = None, likelihood = None,
      risk_rating = None, swp_requirement = None, comments_swp = None, barcode = None\<rparr>"

definition to_csv_row :: "ParsedRecord \<Rightarrow> string list" where
  "to_csv_row r =
     [or_empty (product_name r), or_empty (vendor r), or_empty (quantity r),
      or_empty (location r), or_empty (cas_number r), sds_available r,
      or_empty (issue_date r), or_empty (hazardous_substance r), or_empty (dangerous_good r),
      or_empty (dangerous_goods_class r), or_empty (description r), or_empty (packing_group r),
      or_empty (subsidiary_risks r), or_empty (consequence r), or_empty (likelihood r),
      or_empty (risk_rating r), or_empty (swp_requirement r), or_empty (comments_swp r),
      or_empty (barcode r)]"

section \<open>Utilities\<close>

text \<open>\<open>re.sub(r"[\t\xa0]+", " ", txt)\<close>: a run of tabs and no-break spaces becomes one space.\<close>

definition re_tab_nbsp :: re where
  "re_tab_nbsp = plus (Chr (one_of [CHR 0x09, CHR 0xA0]))"

definition normalize_whitespace :: "string \<Rightarrow> string" where
  "normalize_whitespace txt = re_sub re_tab_nbsp '' '' txt"

text \<open>\<open>[\s;:]+$\<close>\<close>

definition trail_char :: "char \<Rightarrow> bool" where
  "trail_char c \<longleftrightarrow> is_space c \<or> c = CHR '';'' \<or> c = CHR '':''"

definition re_trailing :: re where
  "re_trailing = Seq (plus (Chr trail_char)) (Eol False)"

text \<open>
  The value that \<open>find_first\<close> takes from a match: the last of the groups that
  are neither \<open>None\<close> nor empty, or else the whole match.
\<close>

definition match_value :: "re \<Rightarrow> rmatch \<Rightarrow> string" where
  "match_value pat m =
     (let groups = filter truthy (m_groups pat m)
      in if groups \<noteq> [] then strip (or_empty (last groups))
         else strip (or_empty (m_group m 0)))"

fun find_first :: "re list \<Rightarrow> string \<Rightarrow> string option" where
  "find_first [] text = None"
| "find_first (pat # patterns) text =
     (case re_search pat text of
        Some m \<Rightarrow> Some (re_sub re_trailing [] (match_value pat m))
      | None \<Rightarrow> find_first patterns text)"

section \<open>Dates\<close>

text \<open>Decimal numerals: \<open>str(n)\<close>, zero padding, and \<open>int(s)\<close> on a string of digits.\<close>

definition digit_char :: "nat \<Rightarrow> char" where
  "digit_char n = ''0123456789'' ! n"

fun digits_of_nat :: "nat \<Rightarrow> string" where
  "digits_of_nat n =
     (if n < 10 then [digit_char n] else digits_of_nat (n div 10) @ [digit_char (n mod 10)])"

declare digits_of_nat.simps [simp del]

definition zero_pad :: "nat \<Rightarrow> string \<Rightarrow> string" where
  "zero_pad w s = replicate (w - length s) (CHR ''0'') @ s"

definition digit_val :: "char \<Rightarrow> nat" where
  "digit_val c = of_char c - 48"

definition int_of_digits :: "string \<Rightarrow> nat" where
  "int_of_digits s = foldl (\<lambda>a c. 10 * a + digit_val c) 0 s"

text \<open>
  A \<open>datetime\<close> value, reduced to its date: the constructor raises \<open>ValueError\<close>
  (here \<open>None\<close>) unless the year is in 1..9999 and the day exists in the month.
\<close>

datatype datetime = Datetime nat nat nat

definition is_leap :: "nat \<Rightarrow> bool" where
  "is_leap y \<longleftrightarrow> y mod 4 = 0 \<and> (y mod 100 \<noteq> 0 \<or> y mod 400 = 0)"

definition days_in_month :: "nat \<Rightarrow> nat \<Rightarrow> nat" where
  "days_in_month y m =
     (if m = 2 then (if is_leap y then 29 else 28)
      else if m \<in> set [4, 6, 9, 11] then 30 else 31)"

definition valid_date :: "nat \<Rightarrow> nat \<Rightarrow> nat \<Rightarrow> bool" where
  "valid_date y m d \<longleftrightarrow>
     1 \<le> y \<and> y \<le> 9999 \<and> 1 \<le> m \<and> m \<le> 12 \<and> 1 \<le> d \<and> d \<le> days_in_month y m"

definition mk_datetime :: "nat \<Rightarrow> nat \<Rightarrow> nat \<Rightarrow> datetime option" where
  "mk_datetime y m d = (if valid_date y m d then Some (Datetime y m d) else None)"

text \<open>
  \<open>dt.strftime("%d/%m/%Y")\<close>: day and month on two digits, the year on four, as the
  library documents \<open>%Y\<close> (0001, ..., 9999).
\<close>

fun strftime_dmY :: "datetime \<Rightarrow> string" where
  "strftime_dmY (Datetime y m d) =
     zero_pad 2 (digits_of_nat d) @ ''/'' @ zero_pad 2 (digits_of_nat m) @ ''/'' @
     zero_pad 4 (digits_of_nat y)"

text \<open>
  \<open>datetime.strptime\<close> compiles the format into a regular expression, with one named
  group per directive, matches it at the start of the string and requires that the
  match ends the string. The directives that \<open>DATE_FORMATS_IN\<close> uses:
  \<open>%d\<close> is \<open>3[0-1]|[1-2]\d|0[1-9]|[1-9]| [1-9]\<close>, \<open>%m\<close> is \<open>1[0-2]|0[1-9]|[1-9]\<close>,
  \<open>%Y\<close> is \<open>\d\d\d\d\<close> and \<open>%y\<close> is \<open>\d\d\<close>. A group is named by the code of its
  directive letter.
\<close>

definition nonzero_digit :: "char \<Rightarrow> bool" where
  "nonzero_digit c \<longleftrightarrow> c \<in> set ''123456789''"

definition directive_re :: "char \<Rightarrow> re option" where
  "directive_re d =
     (if d = CHR ''d'' then
        Some (Grp (of_char d)
          (Alt (Seq (Chr ((=) (CHR ''3''))) (Chr (one_of ''01'')))
          (Alt (Seq (Chr (one_of ''12'')) (Chr is_digit))
          (Alt (Seq (Chr ((=) (CHR ''0''))) (Chr nonzero_digit))
          (Alt (Chr nonzero_digit)
               (Seq (Chr ((=) (CHR '' ''))) (Chr nonzero_digit)))))))
      else if d = CHR ''m'' then
        Some (Grp (of_char d)
          (Alt (Seq (Chr ((=) (CHR ''1''))) (Chr (one_of ''012'')))
          (Alt (Seq (Chr ((=) (CHR ''0''))) (Chr nonzero_digit))
               (Chr nonzero_digit))))
      else if d = CHR ''Y'' then
        Some (Grp (of_char d) (seqs [Chr is_digit, Chr is_digit, Chr is_digit, Chr is_digit]))
      else if d = CHR ''y'' then
        Some (Grp (of_char d) (seqs [Chr is_digit, Chr is_digit]))
      else None)"

text \<open>
  The regular expression of a format; \<open>None\<close> is the \<open>ValueError\<close> of a stray
  \<open>%\<close> or of a directive outside the four above.
\<close>

fun format_re :: "string \<Rightarrow> re option" where
  "format_re [] = Some Eps"
| "format_re [c] = (if c = CHR ''%'' then None else Some (Seq (Chr ((=) c)) Eps))"
| "format_re (c # d # s) =
     (if c = CHR ''%'' then
        (case directive_re d of None \<Rightarrow> None
         | Some r \<Rightarrow> map_option (Seq r) (format_re s))
      else map_option (Seq (Chr ((=) c))) (format_re (d # s)))"

text \<open>The year of a match: \<open>%Y\<close> as it is, \<open>%y\<close> in 1969..2068, else 1900.\<close>

definition found_year :: "(nat \<times> string) list \<Rightarrow> nat" where
  "found_year caps =
     (case map_of caps (of_char (CHR ''Y'')) of
        Some v \<Rightarrow> int_of_digits v
      | None \<Rightarrow>
          (case map_of caps (of_char (CHR ''y'')) of
             Some v \<Rightarrow> (let n = int_of_digits v in if n \<le> 68 then n + 2000 else n + 1900)
           | None \<Rightarrow> 1900))"

definition found_field :: "(nat \<times> string) list \<Rightarrow> char \<Rightarrow> nat" where
  "found_field caps d =
     (case map_of caps (of_char d) of Some v \<Rightarrow> int_of_digits (lstrip v) | None \<Rightarrow> 1)"

text \<open>\<open>datetime.strptime(data, fmt)\<close>; \<open>None\<close> is \<open>ValueError\<close>.\<close>

definition strptime :: "string \<Rightarrow> string \<Rightarrow> datetime option" where
  "strptime data fmt =
     (case format_re fmt of
        None \<Rightarrow> None
      | Some r \<Rightarrow>
          (case matches r (None, data, [], []) of
             [] \<Rightarrow> None
           | st # _ \<Rightarrow>
               (case st of (pv, rest, opn, caps) \<Rightarrow>
                  if rest \<noteq> [] then None
                  else mk_datetime (found_year caps) (found_field caps (CHR ''m''))
                         (found_field caps (CHR ''d'')))))"

text \<open>The loop over \<open>DATE_FORMATS_IN\<close>: the first format that parses wins.\<close>

fun try_formats :: "string list \<Rightarrow> string \<Rightarrow> string option" where
  "try_formats [] raw_clean = None"
| "try_formats (fmt # fmts) raw_clean =
     (case strptime raw_clean fmt of
        Some dt \<Rightarrow> Some (strftime_dmY dt)
      | None \<Rightarrow> try_formats fmts raw_clean)"

text \<open>\<open>(\d{1,2})/(\d{1,2})/(\d{2,4})\<close>\<close>

definition re_loose_date :: re where
  "re_loose_date =
     seqs [Grp 1 (Rep 1 (Some 2) (Chr is_digit)), lit ''/'',
           Grp 2 (Rep 1 (Some 2) (Chr is_digit)), lit ''/'',
           Grp 3 (Rep 2 (Some 4) (Chr is_digit))]"

definition loose_date :: "string \<Rightarrow> string option" where
  "loose_date raw_clean =
     (case re_search re_loose_date raw_clean of
        None \<Rightarrow> None
      | Some m \<Rightarrow>
          (let day = or_empty (m_group m 1);
               month = or_empty (m_group m 2);
               year = or_empty (m_group m 3);
               year = (if length year = 2 then ''20'' @ year else year)
           in map_option strftime_dmY
                (mk_datetime (int_of_digits year) (int_of_digits month) (int_of_digits day))))"

definition parse_date :: "string option \<Rightarrow> string option" where
  "parse_date raw =
     (if \<not> truthy raw then None
      else
        (let raw_clean = replace_char (CHR ''-'') (CHR ''/'') (strip (or_empty raw))
         in case try_formats DATE_FORMATS_IN raw_clean of
              Some s \<Rightarrow> Some s
            | None \<Rightarrow>
                (case loose_date raw_clean of
                   Some s \<Rightarrow> Some s
                 | None \<Rightarrow> Some raw_clean)))"

section \<open>The description block\<close>

text \<open>
  \<open>str.splitlines()\<close>: the line boundaries below 256 are LF, VT, FF, CR, FS, GS, RS
  and NEL; CR LF counts once; no empty last line.
\<close>

definition is_linebreak :: "char \<Rightarrow> bool" where
  "is_linebreak c \<longleftrightarrow>
     c \<in> set [CHR 0x0A, CHR 0x0B, CHR 0x0C, CHR 0x0D, CHR 0x1C, CHR 0x1D, CHR 0x1E, CHR 0x85]"

fun split_from :: "string \<Rightarrow> string \<Rightarrow> string list" where
  "split_from cur [] = (if cur = [] then [] else [rev cur])"
| "split_from cur (c # s) =
     (if is_linebreak c then
        rev cur # (case s of
                     [] \<Rightarrow> split_from [] s
                   | c' # s' \<Rightarrow>
                       if c = CHR 0x0D \<and> c' = CHR 0x0A then split_from [] s'
                       else split_from [] s)
      else split_from (c # cur) s)"

definition splitlines :: "string \<Rightarrow> string list" where
  "splitlines s = split_from [] s"

text \<open>\<open>\bH\d{3}\b\<close> and \<open>(Danger|Warning)\b\<close>, both case-sensitive.\<close>

definition re_hazard_code :: re where
  "re_hazard_code = seqs [Wb, lit ''H'', Rep 3 (Some 3) (Chr is_digit), Wb]"

definition re_signal_word :: re where
  "re_signal_word = Seq (Grp 1 (Alt (lit ''Danger'') (lit ''Warning''))) Wb"

text \<open>\<open>\s*;\s*\<close> and \<open>(; ){2,}\<close>\<close>

definition re_semicolon :: re where
  "re_semicolon = seqs [star (Chr is_space), lit '';'', star (Chr is_space)]"

definition re_separators :: re where
  "re_separators = Rep 2 None (Grp 1 (lit ''; ''))"

text \<open>The loop that keeps the first occurrence of every line.\<close>

fun dedupe :: "string list \<Rightarrow> string list \<Rightarrow> string list" where
  "dedupe seen [] = []"
| "dedupe seen (s # selected) =
     (if s \<in> set seen then dedupe seen selected else s # dedupe (s # seen) selected)"

text \<open>\<open>sep.join(xs)\<close>\<close>

fun join :: "string \<Rightarrow> string list \<Rightarrow> string" where
  "join sep [] = []"
| "join sep [x] = x"
| "join sep (x # y # xs) = x @ sep @ join sep (y # xs)"

definition extract_description :: "string \<Rightarrow> string option" where
  "extract_description text =
     (let section2_block = find_first (patterns_for ''description_section2'') text
      in if \<not> truthy section2_block then None
         else
           (let lines = map strip (filter (\<lambda>l. strip l \<noteq> []) (splitlines (or_empty section2_block)));
                selected = filter (\<lambda>l. re_search re_hazard_code l \<noteq> None \<or>
                                          re_search re_signal_word l \<noteq> None) lines;
                selected = (if selected = [] then take 3 lines else selected);
                out = dedupe [] selected;
                desc = take 800 (join ''; '' out);
                desc = re_sub re_semicolon ''; '' desc;
                desc = re_sub re_separators ''; '' desc
            in Some desc))"

section \<open>The risk rating\<close>

definition cons_map :: "(string \<times> int) list" where
  "cons_map = [(''insignificant'', 1), (''minor'', 2), (''moderate'', 3), (''major'', 4), (''severe'', 5)]"

definition lik_map :: "(string \<times> int) list" where
  "lik_map = [(''rare'', 1), (''unlikely'', 2), (''possible'', 3), (''likely'', 4), (''almost certain'', 5)]"

text \<open>\<open>str(score)\<close>\<close>

definition str_int :: "int \<Rightarrow> string" where
  "str_int i = (if i < 0 then CHR ''-'' # digits_of_nat (nat (- i)) else digits_of_nat (nat i))"

definition compute_risk_rating :: "string option \<Rightarrow> string option \<Rightarrow> string option" where
  "compute_risk_rating cons_word lik_word =
     (if \<not> truthy cons_word \<or> \<not> truthy lik_word then None
      else
        (let c = map_of cons_map (lower (strip (or_empty cons_word)));
             l = map_of lik_map (lower (strip (or_empty lik_word)))
         in case c of
              None \<Rightarrow> None
            | Some c \<Rightarrow>
                (case l of
                   None \<Rightarrow> None
                 | Some l \<Rightarrow>
                     (let score = c * l
                      in if score \<le> 4 then Some (''Low ('' @ str_int score @ '')'')
                         else if score \<le> 9 then Some (''Medium ('' @ str_int score @ '')'')
                         else if score \<le> 16 then Some (''High ('' @ str_int score @ '')'')
                         else Some (''Extreme ('' @ str_int score @ '')'')))))"

section \<open>The inference pass and the assembler\<close>

text \<open>\<open>Not classified as Hazardous\<close>, \<open>re.I\<close>\<close>

definition re_not_hazardous :: re where
  "re_not_hazardous = ilit ''Not classified as Hazardous''"

text \<open>\<open>Classified as Hazardous|Hazardous according to\<close>, \<open>re.I\<close>\<close>

definition re_hazardous :: re where
  "re_hazardous = Alt (ilit ''Classified as Hazardous'') (ilit ''Hazardous according to'')"

text \<open>\<open>Not classified as Dangerous Goods\<close>, \<open>re.I\<close>\<close>

definition re_not_dangerous :: re where
  "re_not_dangerous = ilit ''Not classified as Dangerous Goods''"

text \<open>\<open>Classified as Dangerous Goods|Dangerous Goods according to\<close>, \<open>re.I\<close>\<close>

definition re_dangerous :: re where
  "re_dangerous =
     Alt (ilit ''Classified as Dangerous Goods'') (ilit ''Dangerous Goods according to'')"

text \<open>\<open>Packing\s+Group\s*(I{1,3}|II|III)\b\<close>, \<open>re.I\<close>\<close>

definition re_packing_group_infer :: re where
  "re_packing_group_infer =
     seqs [ilit ''Packing'', plus (Chr is_space), ilit ''Group'', star (Chr is_space), re_roman, Wb]"

text \<open>
  \<open>infer_flags\<close> is three blocks in sequence, one per field; each block is a function
  here and \<open>infer_flags\<close> runs them in the order of the source.
\<close>

definition infer_hazardous_substance :: "ParsedRecord \<Rightarrow> string \<Rightarrow> ParsedRecord" where
  "infer_hazardous_substance record text_norm =
     (if \<not> truthy (hazardous_substance record) then
        (if re_search re_not_hazardous text_norm \<noteq> None
         then record\<lparr>hazardous_substance := Some ''No''\<rparr>
         else if re_search re_hazardous text_norm \<noteq> None
         then record\<lparr>hazardous_substance := Some ''Yes''\<rparr>
         else record)
      else record)"

definition infer_dangerous_good :: "ParsedRecord \<Rightarrow> string \<Rightarrow> ParsedRecord" where
  "infer_dangerous_good record text_norm =
     (if \<not> truthy (dangerous_good record) then
        (if re_search re_not_dangerous text_norm \<noteq> None
         then record\<lparr>dangerous_good := Some ''No''\<rparr>
         else if re_search re_dangerous text_norm \<noteq> None \<or>
                 truthy (dangerous_goods_class record)
         then record\<lparr>dangerous_good := Some ''Yes''\<rparr>
         else record)
      else record)"

text \<open>Group 1 takes part in every match of the pattern, so \<open>m.group(1)\<close> is a string.\<close>

definition infer_packing_group :: "ParsedRecord \<Rightarrow> string \<Rightarrow> ParsedRecord" where
  "infer_packing_group record text_norm =
     (if \<not> truthy (packing_group record) then
        (case re_search re_packing_group_infer text_norm of
           Some m \<Rightarrow> record\<lparr>packing_group := map_option upper (m_group m 1)\<rparr>
         | None \<Rightarrow> record)
      else record)"

definition infer_flags :: "ParsedRecord \<Rightarrow> string \<Rightarrow> ParsedRecord" where
  "infer_flags record text_norm =
     infer_packing_group
       (infer_dangerous_good (infer_hazardous_substance record text_norm) text_norm) text_norm"

definition extract_fields :: "string \<Rightarrow> ParsedRecord" where
  "extract_fields text =
     (let text_norm = normalize_whitespace text;
          record = new_record;
          record = record\<lparr>product_name := find_first (patterns_for ''product_name'') text_norm\<rparr>;
          record = record\<lparr>vendor := find_first (patterns_for ''vendor'') text_norm\<rparr>;
          record = record\<lparr>quantity := None\<rparr>;
          record = record\<lparr>location := None\<rparr>;
          record = record\<lparr>cas_number := find_first (patterns_for ''cas_number'') text_norm\<rparr>;
          raw_issue = find_first (patterns_for ''issue_date'') text_norm;
          record = record\<lparr>issue_date := parse_date raw_issue\<rparr>;
          record = record\<lparr>hazardous_substance :=
                     find_first (patterns_for ''hazardous_substance'') text_norm\<rparr>;
          record = record\<lparr>dangerous_good := find_first (patterns_for ''dangerous_good'') text_norm\<rparr>;
          record = record\<lparr>dangerous_goods_class :=
                     find_first (patterns_for ''dangerous_goods_class'') text_norm\<rparr>;
          record =
            (if truthy (dangerous_goods_class record) \<and>
                contains ''ification'' (lower (or_empty (dangerous_goods_class record)))
             then record\<lparr>dangerous_goods_class := None\<rparr> else record);
          record = record\<lparr>packing_group := find_first (patterns_for ''packing_group'') text_norm\<rparr>;
          record = record\<lparr>subsidiary_risks :=
                     find_first (patterns_for ''subsidiary_risks'') text_norm\<rparr>;
          record = record\<lparr>description := extract_description text_norm\<rparr>;
          record = infer_flags record text_norm;
          record = record\<lparr>risk_rating :=
                     compute_risk_rating (consequence record) (likelihood record)\<rparr>
      in record)"

section \<open>The register store\<close>

text \<open>
  A register file is modelled as the list of rows that \<open>csv.reader\<close> reads from it and
  that \<open>csv.writer\<close> writes to it, a blank line being the empty row; the file system
  maps the paths of the regular files to their contents. Failures of the operating
  system (an unwritable destination) are outside the model.
\<close>

type_synonym csv_file = "string list list"

type_synonym filesystem = "string \<Rightarrow> csv_file option"

text \<open>
  \<open>csv.DictReader\<close>: the first row gives the field names; every later row that is not
  blank becomes a dictionary, a later column of the same name overriding an earlier one
  and the names beyond the end of a short row mapped to \<open>None\<close>. \<open>row_get\<close> is
  \<open>row.get(key)\<close> for a string key.
\<close>

definition row_get :: "string list \<Rightarrow> string list \<Rightarrow> string \<Rightarrow> string option" where
  "row_get fieldnames row key =
     (if key \<in> set (drop (length row) fieldnames) then None
      else map_of (rev (zip fieldnames row)) key)"

definition dict_reader :: "csv_file \<Rightarrow> (string \<Rightarrow> string option) list" where
  "dict_reader file =
     (case file of
        [] \<Rightarrow> []
      | fieldnames # rows \<Rightarrow> map (row_get fieldnames) (filter (\<lambda>row. row \<noteq> []) rows))"

datatype log_event = Skipping_duplicate "string option" | Appended_record "string option"

text \<open>The scan of the existing rows: the loop returns at the first duplicate.\<close>

fun duplicate_in :: "string option \<Rightarrow> (string \<Rightarrow> string option) list \<Rightarrow> bool" where
  "duplicate_in b [] = False"
| "duplicate_in b (row # rows) =
     (if truthy b \<and> row ''Barcode'' = b then True else duplicate_in b rows)"

definition append_record_to_csv ::
  "ParsedRecord \<Rightarrow> string \<Rightarrow> filesystem \<Rightarrow> filesystem \<times> log_event list" where
  "append_record_to_csv record path fs =
     (let new_row = to_csv_row record
      in case fs path of
           Some rows \<Rightarrow>
             if duplicate_in (barcode record) (dict_reader rows)
             then (fs, [Skipping_duplicate (barcode record)])
             else (fs(path \<mapsto> rows @ [new_row]), [Appended_record (barcode record)])
         | None \<Rightarrow>
             (fs(path \<mapsto> [REGISTER_HEADERS, new_row]), [Appended_record (barcode record)]))"

section \<open>The HTTP entry point\<close>



section \<open>The specification's own words\<close>

text \<open>
  The definitions of this section follow the specification, not the source: the
  theorems below compare them with the functions above.
\<close>

text \<open>The two ordinal tables and the score bands of the risk rating.\<close>

definition consequence_ordinal :: "string \<Rightarrow> int option" where
  "consequence_ordinal w =
     (if w = ''insignificant'' then Some 1 else if w = ''minor'' then Some 2
      else if w = ''moderate'' then Some 3 else if w = ''major'' then Some 4
      else if w = ''severe'' then Some 5 else None)"

definition likelihood_ordinal :: "string \<Rightarrow> int option" where
  "likelihood_ordinal w =
     (if w = ''rare'' then Some 1 else if w = ''unlikely'' then Some 2
      else if w = ''possible'' then Some 3 else if w = ''likely'' then Some 4
      else if w = ''almost certain'' then Some 5 else None)"

definition score_band :: "int \<Rightarrow> string option" where
  "score_band score =
     (if 1 \<le> score \<and> score \<le> 4 then Some ''Low''
      else if 5 \<le> score \<and> score \<le> 9 then Some ''Medium''
      else if 10 \<le> score \<and> score \<le> 16 then Some ''High''
      else if 17 \<le> score \<and> score \<le> 25 then Some ''Extreme''
      else None)"

text \<open>
  The rating of two words: both trimmed and lower-cased, both looked up, the product
  banded and rendered as \<open>Label (score)\<close>; no rating when an input is absent or
  not in its table.
\<close>

definition risk_rating_spec :: "string option \<Rightarrow> string option \<Rightarrow> string option" where
  "risk_rating_spec c l =
     (case c of None \<Rightarrow> None
      | Some cw \<Rightarrow>
          (case l of None \<Rightarrow> None
           | Some lw \<Rightarrow>
               (case consequence_ordinal (lower (strip cw)) of None \<Rightarrow> None
                | Some a \<Rightarrow>
                    (case likelihood_ordinal (lower (strip lw)) of None \<Rightarrow> None
                     | Some b \<Rightarrow>
                         (case score_band (a * b) of None \<Rightarrow> None
                          | Some label \<Rightarrow> Some (label @ '' ('' @ str_int (a * b) @ '')''))))))"

text \<open>
  The Field Locator. The captured groups of a match in the order of their numbers, the
  value that the locator selects (the last captured group that is not empty, the whole
  matched span when there is none), and the removal of a trailing run of whitespace,
  colons and semicolons.
\<close>

definition captured_groups :: "re \<Rightarrow> rmatch \<Rightarrow> string list" where
  "captured_groups pat m =
     concat (map (\<lambda>g. case g of None \<Rightarrow> [] | Some v \<Rightarrow> [v]) (m_groups pat m))"

definition whole_match :: "rmatch \<Rightarrow> string" where
  "whole_match m = (case m_group m 0 of None \<Rightarrow> [] | Some v \<Rightarrow> v)"

definition located_value :: "re \<Rightarrow> rmatch \<Rightarrow> string" where
  "located_value pat m =
     (let non_empty = filter (\<lambda>g. g \<noteq> []) (captured_groups pat m)
      in if non_empty = [] then whole_match m else last non_empty)"

definition drop_trailing :: "string \<Rightarrow> string" where
  "drop_trailing s =
     rev (dropWhile (\<lambda>c. is_space c \<or> c = CHR '':'' \<or> c = CHR '';'') (rev s))"

text \<open>
  The rules are tried in their order; the first one that matches somewhere in the text
  gives the result, and there is none when no rule matches.
\<close>

definition locate_spec :: "re list \<Rightarrow> string \<Rightarrow> string option" where
  "locate_spec rules text =
     (case List.find (\<lambda>pat. re_search pat text \<noteq> None) rules of
        None \<Rightarrow> None
      | Some pat \<Rightarrow>
          (case re_search pat text of
             None \<Rightarrow> None
           | Some m \<Rightarrow> Some (drop_trailing (strip (located_value pat m)))))"

section \<open>Auxiliary notions of the proofs\<close>




text \<open>
  The captures of a match state; a pattern that leaves them as they are; a pattern that
  adds to them, as group 1, a non-empty string without whitespace, colon or semicolon.
\<close>

definition caps_of :: "mstate \<Rightarrow> (nat \<times> string) list" where
  "caps_of st = snd (snd (snd st))"

definition solid :: "string \<Rightarrow> bool" where
  "solid g \<longleftrightarrow> g \<noteq> [] \<and> (\<forall>c \<in> set g. \<not> trail_char c)"

definition keeps_caps :: "re \<Rightarrow> bool" where
  "keeps_caps r \<longleftrightarrow> (\<forall>st st'. st' \<in> set (matches r st) \<longrightarrow> caps_of st' = caps_of st)"

definition captures_solid :: "re \<Rightarrow> bool" where
  "captures_solid r \<longleftrightarrow>
     (\<forall>st st'. st' \<in> set (matches r st) \<longrightarrow>
        (\<exists>g. caps_of st' = (1, g) # caps_of st \<and> solid g))"

section \<open>The frame of the inference pass\<close>

lemma infer_hazardous_substance_frame:
  "product_name (infer_hazardous_substance r t) = product_name r"
  "vendor (infer_hazardous_substance r t) = vendor r"
  "quantity (infer_hazardous_substance r t) = quantity r"
  "location (infer_hazardous_substance r t) = location r"
  "cas_number (infer_hazardous_substance r t) = cas_number r"
  "sds_available (infer_hazardous_substance r t) = sds_available r"
  "issue_date (infer_hazardous_substance r t) = issue_date r"
  "dangerous_good (infer_hazardous_substance r t) = dangerous_good r"
  "dangerous_goods_class (infer_hazardous_substance r t) = dangerous_goods_class r"
  "description (infer_hazardous_substance r t) = description r"
  "packing_group (infer_hazardous_substance r t) = packing_group r"
  "subsidiary_risks (infer_hazardous_substance r t) = subsidiary_risks r"
  "consequence (infer_hazardous_substance r t) = consequence r"
  "likelihood (infer_hazardous_substance r t) = likelihood r"
  "risk_rating (infer_hazardous_substance r t) = risk_rating r"
  "swp_requirement (infer_hazardous_substance r t) = swp_requirement r"
  "comments_swp (infer_hazardous_substance r t) = comments_swp r"
  "barcode (infer_hazardous_substance r t) = barcode r"
  by (simp_all add: infer_hazardous_substance_def)

lemma infer_dangerous_good_frame:
  "product_name (infer_dangerous_good r t) = product_name r"
  "vendor (infer_dangerous_good r t) = vendor r"
  "quantity (infer_dangerous_good r t) = quantity r"
  "location (infer_dangerous_good r t) = location r"
  "cas_number (infer_dangerous_good r t) = cas_number r"
  "sds_available (infer_dangerous_good r t) = sds_available r"
  "issue_date (infer_dangerous_good r t) = issue_date r"
  "hazardous_substance (infer_dangerous_good r t) = hazardous_substance r"
  "dangerous_goods_class (infer_dangerous_good r t) = dangerous_goods_class r"
  "description (infer_dangerous_good r t) = description r"
  "packing_group (infer_dangerous_good r t) = packing_group r"
  "subsidiary_risks (infer_dangerous_good r t) = subsidiary_risks r"
  "consequence (infer_dangerous_good r t) = consequence r"
  "likelihood (infer_dangerous_good r t) = likelihood r"
  "risk_rating (infer_dangerous_good r t) = risk_rating r"
  "swp_requirement (infer_dangerous_good r t) = swp_requirement r"
  "comments_swp (infer_dangerous_good r t) = comments_swp r"
  "barcode (infer_dangerous_good r t) = barcode r"
  by (simp_all add: infer_dangerous_good_def)

lemma infer_packing_group_frame:
  "product_name (infer_packing_group r t) = product_name r"
  "vendor (infer_packing_group r t) = vendor r"
  "quantity (infer_packing_group r t) = quantity r"
  "location (infer_packing_group r t) = location r"
  "cas_number (infer_packing_group r t) = cas_number r"
  "sds_available (infer_packing_group r t) = sds_available r"
  "issue_date (infer_packing_group r t) = issue_date r"
  "hazardous_substance (infer_packing_group r t) = hazardous_substance r"
  "dangerous_good (infer_packing_group r t) = dangerous_good r"
  "dangerous_goods_class (infer_packing_group r t) = dangerous_goods_class r"
  "description (infer_packing_group r t) = description r"
  "subsidiary_risks (infer_packing_group r t) = subsidiary_risks r"
  "consequence (infer_packing_group r t) = consequence r"
  "likelihood (infer_packing_group r t) = likelihood r"
  "risk_rating (infer_packing_group r t) = risk_rating r"
  "swp_requirement (infer_packing_group r t) = swp_requirement r"
  "comments_swp (infer_packing_group r t) = comments_swp r"
  "barcode (infer_packing_group r t) = barcode r"
  by (simp_all add: infer_packing_group_def split: option.split)

lemmas infer_frame =
  infer_hazardous_substance_frame infer_dangerous_good_frame infer_packing_group_frame

lemma infer_flags_other_fields:
  "product_name (infer_flags r t) = product_name r"
  "vendor (infer_flags r t) = vendor r"
  "quantity (infer_flags r t) = quantity r"
  "location (infer_flags r t) = location r"
  "cas_number (infer_flags r t) = cas_number r"
  "sds_available (infer_flags r t) = sds_available r"
  "issue_date (infer_flags r t) = issue_date r"
  "dangerous_goods_class (infer_flags r t) = dangerous_goods_class r"
  "description (infer_flags r t) = description r"
  "subsidiary_risks (infer_flags r t) = subsidiary_risks r"
  "consequence (infer_flags r t) = consequence r"
  "likelihood (infer_flags r t) = likelihood r"
  "risk_rating (infer_flags r t) = risk_rating r"
  "swp_requirement (infer_flags r t) = swp_requirement r"
  "comments_swp (infer_flags r t) = comments_swp r"
  "barcode (infer_flags r t) = barcode r"
  by (simp_all add: infer_flags_def infer_frame)

lemma infer_flags_keeps_truthy:
  "truthy (hazardous_substance r) \<Longrightarrow>
     hazardous_substance (infer_flags r t) = hazardous_substance r"
  "truthy (dangerous_good r) \<Longrightarrow> dangerous_good (infer_flags r t) = dangerous_good r"
  "truthy (packing_group r) \<Longrightarrow> packing_group (infer_flags r t) = packing_group r"
  by (simp_all add: infer_flags_def infer_frame)
     (simp_all add: infer_hazardous_substance_def infer_dangerous_good_def
        infer_packing_group_def)

section \<open>What the assembler leaves unset\<close>

text \<open>
  C10. For every text, the record of \<open>extract_fields\<close> has \<open>consequence\<close>,
  \<open>likelihood\<close> and \<open>risk_rating\<close> unset, and also \<open>quantity\<close>, \<open>location\<close>,
  \<open>swp_requirement\<close>, \<open>comments_swp\<close> and \<open>barcode\<close>; \<open>sds_available\<close> is \<open>Yes\<close>.
\<close>

theorem extract_fields_unpopulated:
  "consequence (extract_fields text) = None \<and> likelihood (extract_fields text) = None \<and>
   risk_rating (extract_fields text) = None \<and> quantity (extract_fields text) = None \<and>
   location (extract_fields text) = None \<and> swp_requirement (extract_fields text) = None \<and>
   comments_swp (extract_fields text) = None \<and> barcode (extract_fields text) = None \<and>
   sds_available (extract_fields text) = ''Yes''"
  by (simp add: extract_fields_def Let_def infer_flags_other_fields new_record_def
        compute_risk_rating_def)

theorem extract_fields_unpopulated_witness:
  "risk_rating (extract_fields ''Packing Group: ii'') = None \<and>
   barcode (extract_fields ''Packing Group: ii'') = None \<and>
   sds_available (extract_fields ''Packing Group: ii'') = ''Yes''"
  using extract_fields_unpopulated [of "''Packing Group: ii''"] by simp

section \<open>The register store\<close>

text \<open>
  C5. Appending to a destination that does not exist creates it with two rows: the
  nineteen column names, Product Name to Barcode, then the nineteen values of the
  record in the same order, an unset field written as the empty string.
\<close>

theorem append_first_record:
  assumes "fs path = None"
  shows "fst (append_record_to_csv r path fs) path =
     Some [[''Product Name'', ''Vendor / Manufacturer'', ''Quantity'', ''Location'',
            ''CAS Number'', ''SDS Available'', ''Issue Date (DD/MM/YYYY)'',
            ''Hazardous Substance'', ''Dangerous Good'', ''Dangerous Goods Class'',
            ''Description'', ''Packing group'', ''Subsidiary Risk(s)'', ''Consequence'',
            ''Likelihood'', ''Risk Rating'', ''Safe Work Procedure (SWP) Requirement'',
            ''Comments/SWP'', ''Barcode''],
           [case product_name r of None \<Rightarrow> [] | Some v \<Rightarrow> v,
            case vendor r of None \<Rightarrow> [] | Some v \<Rightarrow> v,
            case quantity r of None \<Rightarrow> [] | Some v \<Rightarrow> v,
            case location r of None \<Rightarrow> [] | Some v \<Rightarrow> v,
            case cas_number r of None \<Rightarrow> [] | Some v \<Rightarrow> v,
            sds_available r,
            case issue_date r of None \<Rightarrow> [] | Some v \<Rightarrow> v,
            case hazardous_substance r of None \<Rightarrow> [] | Some v \<Rightarrow> v,
            case dangerous_good r of None \<Rightarrow> [] | Some v \<Rightarrow> v,
            case dangerous_goods_class r of None \<Rightarrow> [] | Some v \<Rightarrow> v,
            case description r of None \<Rightarrow> [] | Some v \<Rightarrow> v,
            case packing_group r of None \<Rightarrow> [] | Some v \<Rightarrow> v,
            case subsidiary_risks r of None \<Rightarrow> [] | Some v \<Rightarrow> v,
            case consequence r of None \<Rightarrow> [] | Some v \<Rightarrow> v,
            case likelihood r of None \<Rightarrow> [] | Some v \<Rightarrow> v,
            case risk_rating r of None \<Rightarrow> [] | Some v \<Rightarrow> v,
            case swp_requirement r of None \<Rightarrow> [] | Some v \<Rightarrow> v,
            case comments_swp r of None \<Rightarrow> [] | Some v \<Rightarrow> v,
            case barcode r of None \<Rightarrow> [] | Some v \<Rightarrow> v]]"
proof -
  have e: "\<And>x. or_empty x = (case x of None \<Rightarrow> [] | Some v \<Rightarrow> v)"
    by (simp split: option.split)
  show ?thesis
    using assms
    by (simp add: append_record_to_csv_def REGISTER_HEADERS_def to_csv_row_def e)
qed

theorem append_first_record_witness:
  "fst (append_record_to_csv (new_record\<lparr>product_name := Some ''Acetone''\<rparr>) ''register.csv''
         (\<lambda>p. None)) ''register.csv'' =
     Some [[''Product Name'', ''Vendor / Manufacturer'', ''Quantity'', ''Location'',
            ''CAS Number'', ''SDS Available'', ''Issue Date (DD/MM/YYYY)'',
            ''Hazardous Substance'', ''Dangerous Good'', ''Dangerous Goods Class'',
            ''Description'', ''Packing group'', ''Subsidiary Risk(s)'', ''Consequence'',
            ''Likelihood'', ''Risk Rating'', ''Safe Work Procedure (SWP) Requirement'',
            ''Comments/SWP'', ''Barcode''],
           [''Acetone'', [], [], [], [], ''Yes'', [], [], [], [], [], [], [], [], [], [], [],
            [], []]]"
  using append_first_record
    [of "\<lambda>p. None" "''register.csv''" "new_record\<lparr>product_name := Some ''Acetone''\<rparr>"]
  by (simp add: new_record_def)




section \<open>The risk rating\<close>

lemma cons_map_ordinal: "map_of cons_map w = consequence_ordinal w"
  by (simp add: cons_map_def consequence_ordinal_def)

lemma lik_map_ordinal: "map_of lik_map w = likelihood_ordinal w"
  by (simp add: lik_map_def likelihood_ordinal_def)

lemma consequence_ordinal_range: "consequence_ordinal w = Some a \<Longrightarrow> a \<in> {1, 2, 3, 4, 5}"
  by (auto simp: consequence_ordinal_def split: if_splits)

lemma likelihood_ordinal_range: "likelihood_ordinal w = Some a \<Longrightarrow> a \<in> {1, 2, 3, 4, 5}"
  by (auto simp: likelihood_ordinal_def split: if_splits)

lemma strip_Nil: "strip [] = []"
  by (simp add: strip_def rstrip_def lstrip_def)

lemma banded:
  assumes "a \<in> {1, 2, 3, 4, 5::int}" "b \<in> {1, 2, 3, 4, 5::int}"
  shows "(if a * b \<le> 4 then Some (''Low ('' @ str_int (a * b) @ '')'')
          else if a * b \<le> 9 then Some (''Medium ('' @ str_int (a * b) @ '')'')
          else if a * b \<le> 16 then Some (''High ('' @ str_int (a * b) @ '')'')
          else Some (''Extreme ('' @ str_int (a * b) @ '')'')) =
         (case score_band (a * b) of None \<Rightarrow> None
          | Some label \<Rightarrow> Some (label @ '' ('' @ str_int (a * b) @ '')''))"
  using assms by (auto simp: score_band_def)

text \<open>
  C6. For every pair of inputs, \<open>compute_risk_rating\<close> is the rating of the
  specification: the words trimmed and compared without case against the two ordinal
  tables, the product of the two ordinals labelled by the bands 1-4 Low, 5-9 Medium,
  10-16 High, 17-25 Extreme and rendered as \<open>Label (score)\<close>, and no rating when an
  input is absent or not in its table.
\<close>

theorem compute_risk_rating_spec:
  "compute_risk_rating c l = risk_rating_spec c l"
proof (cases c)
  case None
  then show ?thesis by (simp add: compute_risk_rating_def risk_rating_spec_def)
next
  case (Some cw)
  note c = this
  show ?thesis
  proof (cases l)
    case None
    then show ?thesis using c by (simp add: compute_risk_rating_def risk_rating_spec_def)
  next
    case (Some lw)
    have e1: "cw = [] \<Longrightarrow> consequence_ordinal (lower (strip cw)) = None"
      by (simp add: strip_Nil lower_def consequence_ordinal_def)
    have e2: "lw = [] \<Longrightarrow> likelihood_ordinal (lower (strip lw)) = None"
      by (simp add: strip_Nil lower_def likelihood_ordinal_def)
    show ?thesis
      using c Some e1 e2
      by (auto simp: compute_risk_rating_def risk_rating_spec_def Let_def cons_map_ordinal
            lik_map_ordinal banded consequence_ordinal_range likelihood_ordinal_range
          simp del: insert_iff split: option.splits)
  qed
qed

theorem compute_risk_rating_spec_witness:
  "compute_risk_rating (Some '' Moderate '') (Some ''LIKELY'') = Some ''High (12)'' \<and>
   compute_risk_rating (Some ''severe'') (Some ''sometimes'') = None"
proof -
  have "risk_rating_spec (Some '' Moderate '') (Some ''LIKELY'') = Some ''High (12)''"
    by code_simp
  moreover have "risk_rating_spec (Some ''severe'') (Some ''sometimes'') = None"
    by code_simp
  ultimately show ?thesis by (simp add: compute_risk_rating_spec)
qed

text \<open>The examples of the specification and of the repository's tests.\<close>

lemma compute_risk_rating_examples:
  "compute_risk_rating (Some ''insignificant'') (Some ''rare'') = Some ''Low (1)''"
  "compute_risk_rating (Some ''moderate'') (Some ''likely'') = Some ''High (12)''"
  "compute_risk_rating (Some ''severe'') (Some ''almost certain'') = Some ''Extreme (25)''"
  "compute_risk_rating (Some ''unknown'') (Some ''rare'') = None"
  "compute_risk_rating None None = None"
  by code_simp+

section \<open>The assembler on concrete texts\<close>

lemma packing_group_direct:
  "truthy (find_first (patterns_for ''packing_group'') (normalize_whitespace text)) \<Longrightarrow>
   packing_group (extract_fields text) =
     find_first (patterns_for ''packing_group'') (normalize_whitespace text)"
  by (simp add: extract_fields_def Let_def infer_flags_def infer_frame)
     (simp add: infer_packing_group_def infer_frame)

text \<open>
  C9 fails on the code. The direct pattern is matched without regard to case and its
  capture is stored as it was written, so a packing group in small letters reaches the
  record unchanged; only the inference pass turns its capture into capitals.
\<close>

theorem packing_group_lower_case:
  "packing_group (extract_fields ''Packing Group: ii'') = Some ''ii''"
proof -
  have n: "normalize_whitespace ''Packing Group: ii'' = ''Packing Group: ii''"
    by code_simp
  have f: "find_first (patterns_for ''packing_group'') ''Packing Group: ii'' = Some ''ii''"
    by code_simp
  show ?thesis
    using packing_group_direct [of "''Packing Group: ii''"] by (simp add: n f)
qed


text \<open>
  C8 fails on the code. The hyphens are replaced by slashes before the formats
  are tried, so no format with a hyphen can match; the loose pattern then reads the
  last two digits of the year as the day and the day as a two-digit year.
\<close>

theorem parse_date_year_month_day:
  "parse_date (Some ''2023-04-12'') = Some ''23/04/2012''"
  by code_simp

section \<open>The matcher on a run of characters\<close>

lemma rep_m_0: "rep_m f lo 0 st = (if lo = 0 then [st] else [])"
  by (simp add: rep_m.simps)

lemma rep_m_Suc:
  "rep_m f lo (Suc hi) st =
     concat (map (rep_m f (lo - 1) hi) (f st)) @ (if lo = 0 then [st] else [])"
  by (subst rep_m.simps) simp

lemma step_chr_Nil: "step_chr p (pv, [], opn, caps) = []"
  by (simp add: step_chr_def)

lemma step_chr_Cons:
  "step_chr p (pv, c # s, opn, caps) =
     (if p c then [(Some c, s, map ((#) c) opn, caps)] else [])"
  by (simp add: step_chr_def)

lemma matches_Chr: "matches (Chr p) = step_chr p"
  by (rule ext) simp

lemma matches_Eol: "matches (Eol ml) = (\<lambda>st. if at_eol ml st then [st] else [])"
  by (rule ext) simp

text \<open>A run that fills the text is matched whole by the first result.\<close>

lemma rep_chr_all:
  "\<forall>c \<in> set s. p c \<Longrightarrow> length s \<le> hi \<Longrightarrow> lo \<le> length s \<Longrightarrow>
   \<exists>pv' opn' more. rep_m (step_chr p) lo hi (pv, s, opn, caps) = (pv', [], opn', caps) # more"
proof (induction s arbitrary: hi lo pv opn)
  case Nil
  then show ?case by (cases hi) (simp_all add: rep_m_0 rep_m_Suc step_chr_Nil)
next
  case (Cons c s)
  then obtain h where h: "hi = Suc h" by (cases hi) auto
  have "\<exists>pv' opn' more.
          rep_m (step_chr p) (lo - 1) h (Some c, s, map ((#) c) opn, caps) =
            (pv', [], opn', caps) # more"
    using Cons.prems h by (intro Cons.IH) auto
  then show ?case
    using Cons.prems by (auto simp: h rep_m_Suc step_chr_Cons)
qed

text \<open>Every result of a repetition has consumed at least \<open>lo\<close> characters of the class.\<close>

lemma rep_chr_results:
  "st' \<in> set (rep_m (step_chr p) lo hi (pv, s, opn, caps)) \<Longrightarrow>
   \<exists>k. lo \<le> k \<and> k \<le> length s \<and> st_rest st' = drop k s \<and> (\<forall>c \<in> set (take k s). p c)"
proof (induction hi arbitrary: lo pv s opn)
  case 0
  then show ?case
    by (auto simp: rep_m_0 st_rest_def split: if_splits intro!: exI [of _ 0])
next
  case (Suc hi)
  from Suc.prems consider
    (more) st1 where "st1 \<in> set (step_chr p (pv, s, opn, caps))"
      "st' \<in> set (rep_m (step_chr p) (lo - 1) hi st1)"
    | (stop) "lo = 0" "st' = (pv, s, opn, caps)"
    by (auto simp: rep_m_Suc split: if_splits)
  then show ?case
  proof cases
    case more
    then obtain c s' where s: "s = c # s'" "p c" "st1 = (Some c, s', map ((#) c) opn, caps)"
      by (cases s) (auto simp: step_chr_Nil step_chr_Cons split: if_splits)
    from Suc.IH [of "lo - 1" "Some c" s' "map ((#) c) opn"] more(2) s(3)
    obtain k where k: "lo - 1 \<le> k" "k \<le> length s'" "st_rest st' = drop k s'"
      "\<forall>c \<in> set (take k s'). p c"
      by auto
    show ?thesis
      using k s by (intro exI [of _ "Suc k"]) auto
  next
    case stop
    then show ?thesis by (auto simp: st_rest_def intro!: exI [of _ 0])
  qed
qed

section \<open>The trailing run that the locator removes\<close>

lemma trail_char_newline: "trail_char (CHR 0x0A)"
  by (simp add: trail_char_def is_space_def)

lemma matches_trailing_all:
  assumes "s \<noteq> []" "\<forall>c \<in> set s. trail_char c"
  shows "\<exists>pv' opn' more. matches re_trailing (pv, s, opn, caps) = (pv', [], opn', caps) # more"
proof -
  obtain pv' opn' more where
    "rep_m (step_chr trail_char) 1 (length s) (pv, s, opn, caps) = (pv', [], opn', caps) # more"
    using rep_chr_all [of s trail_char "length s" 1 pv opn caps] assms
    by (cases s) auto
  then show ?thesis
    by (simp add: re_trailing_def plus_def st_rest_def at_eol_def matches_Chr matches_Eol)
qed

lemma matches_trailing_none:
  assumes "s = [] \<or> (\<exists>c \<in> set s. \<not> trail_char c)"
  shows "matches re_trailing (pv, s, opn, caps) = []"
proof -
  have "\<not> at_eol False st'"
    if st': "st' \<in> set (rep_m (step_chr trail_char) 1 (length s) (pv, s, opn, caps))" for st'
  proof
    assume eol: "at_eol False st'"
    obtain k where k: "1 \<le> k" "k \<le> length s" "st_rest st' = drop k s"
      "\<forall>c \<in> set (take k s). trail_char c"
      using rep_chr_results [OF st'] by auto
    have "drop k s = [] \<or> drop k s = [CHR 0x0A]"
      using eol k(3) by (cases st') (auto simp: at_eol_def st_rest_def split: list.splits)
    then have "\<forall>c \<in> set (drop k s). trail_char c"
      using trail_char_newline by auto
    with k(4) have "\<forall>c \<in> set (take k s) \<union> set (drop k s). trail_char c"
      by auto
    then have "\<forall>c \<in> set s. trail_char c"
      by (simp only: set_append [symmetric] append_take_drop_id)
    moreover have "s \<noteq> []" using k by auto
    ultimately show False using assms by auto
  qed
  then show ?thesis
    by (auto simp: re_trailing_def plus_def st_rest_def matches_Chr matches_Eol)
qed

lemma keep_Cons:
  "rev (dropWhile P (rev (c # s))) =
     (if \<forall>x \<in> set (c # s). P x then [] else c # rev (dropWhile P (rev s)))"
  by (auto simp: dropWhile_append)

lemma keep_all: "\<forall>x \<in> set s. P x \<Longrightarrow> rev (dropWhile P (rev s)) = []"
  by simp

lemma search_trailing:
  "(rev (dropWhile trail_char (rev s)) = s \<longrightarrow> search_at re_trailing pv s = None) \<and>
   (rev (dropWhile trail_char (rev s)) \<noteq> s \<longrightarrow>
      (\<exists>m. search_at re_trailing pv s = Some m \<and>
           m_before m = rev (dropWhile trail_char (rev s)) \<and> m_after m = []))"
proof (induction s arbitrary: pv)
  case Nil
  have "matches re_trailing (pv, [], [[]], []) = []"
    using matches_trailing_none [of "[]" pv "[[]]" "[]"] by simp
  then show ?case
    by (simp add: open_group_def)
next
  case (Cons c s)
  let ?keep = "\<lambda>t. rev (dropWhile trail_char (rev t))"
  show ?case
  proof (cases "\<forall>x \<in> set (c # s). trail_char x")
    case True
    then obtain pv' opn' more where
      m: "matches re_trailing (pv, c # s, [[]], []) = (pv', [], opn', []) # more"
      using matches_trailing_all [of "c # s" pv "[[]]" "[]"] by auto
    have k: "?keep (c # s) = []"
      using True by (intro keep_all) simp
    have "\<exists>m. search_at re_trailing pv (c # s) = Some m \<and> m_before m = [] \<and> m_after m = []"
      using m by (cases opn') (simp_all add: open_group_def close_group_def mk_match_def)
    then show ?thesis
      unfolding k by simp
  next
    case False
    then have none: "matches re_trailing (pv, c # s, [[]], []) = []"
      using matches_trailing_none [of "c # s" pv "[[]]" "[]"] by auto
    have k: "?keep (c # s) = c # ?keep s"
      using False by (simp only: keep_Cons if_False)
    have step: "search_at re_trailing pv (c # s) =
                  map_option (shift_match c) (search_at re_trailing (Some c) s)"
      using none by (simp add: open_group_def)
    show ?thesis
    proof (cases "?keep s = s")
      case True
      then have "search_at re_trailing (Some c) s = None"
        using Cons.IH [of "Some c"] by blast
      then show ?thesis
        unfolding k step using True by simp
    next
      case False
      then obtain m where "search_at re_trailing (Some c) s = Some m"
        "m_before m = ?keep s" "m_after m = []"
        using Cons.IH [of "Some c"] by blast
      then show ?thesis
        unfolding k step using False by (simp add: shift_match_def)
    qed
  qed
qed

lemma sub_from_Nil_trailing: "sub_from re_trailing repl pv [] = []"
proof -
  have "search_at re_trailing pv [] = None"
    using search_trailing [of "[]" pv] by simp
  then show ?thesis
    by (subst sub_from.simps) simp
qed

lemma drop_trailing_trail_char: "drop_trailing v = rev (dropWhile trail_char (rev v))"
proof -
  have "trail_char = (\<lambda>c. is_space c \<or> c = CHR '':'' \<or> c = CHR '';'')"
    by (auto simp: trail_char_def fun_eq_iff)
  then show ?thesis
    by (simp add: drop_trailing_def)
qed

lemma re_sub_trailing: "re_sub re_trailing [] v = drop_trailing v"
proof (cases "rev (dropWhile trail_char (rev v)) = v")
  case True
  then have "search_at re_trailing None v = None"
    using search_trailing [of v None] by blast
  then have "sub_from re_trailing [] None v = v"
    by (subst sub_from.simps) simp
  then show ?thesis
    using True by (simp add: re_sub_def drop_trailing_trail_char)
next
  case False
  then obtain m where m: "search_at re_trailing None v = Some m"
    "m_before m = rev (dropWhile trail_char (rev v))" "m_after m = []"
    using search_trailing [of v None] by blast
  have "v \<noteq> []" using False by auto
  then have "sub_from re_trailing [] None v = m_before m"
    using m by (subst sub_from.simps) (simp add: sub_from_Nil_trailing)
  then show ?thesis
    using m by (simp add: re_sub_def drop_trailing_trail_char)
qed

section \<open>The Field Locator\<close>

lemma truthy_groups:
  "map or_empty (filter truthy gs) =
     filter (\<lambda>g. g \<noteq> []) (concat (map (\<lambda>g. case g of None \<Rightarrow> [] | Some v \<Rightarrow> [v]) gs))"
  by (induction gs) (auto split: option.split)

lemma match_value_located: "match_value pat m = strip (located_value pat m)"
proof -
  let ?gs = "filter truthy (m_groups pat m)"
  let ?ne = "filter (\<lambda>g. g \<noteq> []) (captured_groups pat m)"
  have g: "map or_empty ?gs = ?ne"
    unfolding captured_groups_def by (rule truthy_groups)
  have w: "or_empty (m_group m 0) = whole_match m"
    by (simp add: whole_match_def split: option.split)
  show ?thesis
  proof (cases "?gs = []")
    case True
    then have "?ne = []" using g by simp
    then have "located_value pat m = whole_match m"
      by (simp add: located_value_def Let_def)
    moreover have "match_value pat m = strip (or_empty (m_group m 0))"
      using True by (simp add: match_value_def Let_def)
    ultimately show ?thesis using w by simp
  next
    case False
    then have ne: "?ne \<noteq> []" using g by (metis map_is_Nil_conv)
    have "last ?ne = or_empty (last ?gs)"
      using False g by (metis last_map)
    moreover have "located_value pat m = last ?ne"
      using ne by (simp add: located_value_def Let_def)
    moreover have "match_value pat m = strip (or_empty (last ?gs))"
      using False by (simp add: match_value_def Let_def)
    ultimately show ?thesis by simp
  qed
qed

text \<open>
  C1. For every list of rules and every text, \<open>find_first\<close> is the locator of the
  specification: the rules are tried in order, the first rule that matches anywhere
  in the text gives its last non-empty captured group, or the whole matched span when
  no group captured a non-empty string, stripped of whitespace at both ends and then
  of any trailing run of whitespace, colons and semicolons; no rule matching, there is
  no result.
\<close>

theorem find_first_locate:
  "find_first rules text = locate_spec rules text"
proof (induction rules)
  case Nil
  then show ?case by (simp add: locate_spec_def)
next
  case (Cons pat rules)
  show ?case
  proof (cases "re_search pat text")
    case None
    then show ?thesis using Cons.IH by (simp add: locate_spec_def)
  next
    case (Some m)
    then show ?thesis
      by (simp add: locate_spec_def re_sub_trailing match_value_located)
  qed
qed

theorem find_first_locate_witness:
  "find_first [re_company_name, re_supplier] ''Supplier: Acme ;'' = Some ''Acme''"
proof -
  have "locate_spec [re_company_name, re_supplier] ''Supplier: Acme ;'' = Some ''Acme''"
    by code_simp
  then show ?thesis
    by (simp only: find_first_locate)
qed

section \<open>Dates in canonical form\<close>

lemma matches_Seq_Chr:
  "matches (Seq (Chr p) K) (pv, c # s, opn, caps) =
     (if p c then matches K (Some c, s, map ((#) c) opn, caps) else [])"
  by (simp add: step_chr_def)

lemma matches_Seq_Chr_Nil: "matches (Seq (Chr p) K) (pv, [], opn, caps) = []"
  by (simp add: step_chr_def)

lemma is_digit_not_slash: "is_digit b \<Longrightarrow> b \<noteq> CHR ''/''"
  by (auto simp: is_digit_def)






















lemma slash_props: "\<not> is_space (CHR ''/'')" "CHR ''/'' \<noteq> CHR ''-''"
  by (simp_all add: is_space_def)




section \<open>Normalising a date twice\<close>

lemma lstrip_id: "s = [] \<or> \<not> is_space (hd s) \<Longrightarrow> lstrip s = s"
  by (cases s) (auto simp: lstrip_def)

lemma rstrip_id: "s = [] \<or> \<not> is_space (last s) \<Longrightarrow> rstrip s = s"
proof (cases s rule: rev_cases)
  case Nil
  then show ?thesis by (simp add: rstrip_def)
next
  case (snoc t x)
  assume "s = [] \<or> \<not> is_space (last s)"
  then show ?thesis using snoc by (simp add: rstrip_def)
qed




lemma strip_id: "s = [] \<or> (\<not> is_space (hd s) \<and> \<not> is_space (last s)) \<Longrightarrow> strip s = s"
  by (auto simp: strip_def lstrip_id rstrip_id)










section \<open>Whitespace-only text\<close>

lemma rep_m_invariant:
  assumes step: "\<And>st st'. st' \<in> set (f st) \<Longrightarrow> Q st st'"
    and refl: "\<And>st. Q st st" and trans: "\<And>a b c. Q a b \<Longrightarrow> Q b c \<Longrightarrow> Q a c"
  shows "st' \<in> set (rep_m f lo hi st) \<Longrightarrow> Q st st'"
proof (induction hi arbitrary: lo st)
  case 0
  then show ?case using refl by (auto simp: rep_m_0 split: if_splits)
next
  case (Suc hi)
  from Suc.prems consider
    (more) st1 where "st1 \<in> set (f st)" "st' \<in> set (rep_m f (lo - 1) hi st1)"
    | (stop) "st' = st"
    by (auto simp: rep_m_Suc split: if_splits)
  then show ?case
  proof cases
    case more
    then show ?thesis using step Suc.IH trans by blast
  next
    case stop
    then show ?thesis using refl by simp
  qed
qed









section \<open>The patterns of the program on whitespace-only text\<close>






lemma patterns_for_keys:
  "patterns_for ''product_name'' = [re_product_identifier, re_product_name, re_trade_name]"
  "patterns_for ''vendor'' = [re_manufacturer, re_company_name, re_supplier]"
  "patterns_for ''issue_date'' = [re_issue_date, re_prepared]"
  "patterns_for ''dangerous_goods_class'' = [re_dg_class]"
  "patterns_for ''packing_group'' = [re_packing_group]"
  "patterns_for ''subsidiary_risks'' = [re_subsidiary]"
  "patterns_for ''cas_number'' = [re_cas]"
  "patterns_for ''hazardous_substance'' = [re_hazardous_substance]"
  "patterns_for ''dangerous_good'' = [re_dangerous_good]"
  "patterns_for ''description_section2'' = [re_section2]"
  by (simp_all add: patterns_for_def PATTERNS_def)






section \<open>What the direct pass stores in the three inferred fields\<close>

lemma keeps_caps_no_groups: "ngroups r = 0 \<Longrightarrow> keeps_caps r"
  unfolding keeps_caps_def
proof (induction r)
  case (Chr p)
  then show ?case
    by (auto simp: step_chr_def caps_of_def split: list.splits if_splits)
next
  case (Seq a b)
  then show ?case by fastforce
next
  case (Alt a b)
  then show ?case by fastforce
next
  case (Rep lo hi r)
  have "st' \<in> set (rep_m (matches r) lo n st) \<Longrightarrow> caps_of st' = caps_of st" for n st st'
    by (rule rep_m_invariant [where Q = "\<lambda>a b. caps_of b = caps_of a"])
       (use Rep in auto)
  then show ?case by simp
qed (auto split: if_splits)

lemma ngroups_ilit: "ngroups (ilit w) = 0"
  by (induction w) (simp_all add: ilit_def)

lemma ngroups_label_sep: "ngroups label_sep = 0"
  by (simp add: label_sep_def seqs_def star_def opt_def)

lemma captures_solid_Seq1: "keeps_caps a \<Longrightarrow> captures_solid b \<Longrightarrow> captures_solid (Seq a b)"
  unfolding keeps_caps_def captures_solid_def by fastforce

lemma captures_solid_Seq2: "captures_solid a \<Longrightarrow> keeps_caps b \<Longrightarrow> captures_solid (Seq a b)"
  unfolding keeps_caps_def captures_solid_def by fastforce

lemma trail_lower_char: "trail_char c \<Longrightarrow> lower_char c = c"
  by (auto simp: trail_char_def is_space_def lower_char_def)

lemma ieq_solid: "\<not> trail_char (lower_char x) \<Longrightarrow> ieq x c \<Longrightarrow> \<not> trail_char c"
  using trail_lower_char by (auto simp: ieq_def)

lemma capture_letters:
  "\<not> trail_char (lower_char (CHR ''Y''))" "\<not> trail_char (lower_char (CHR ''e''))"
  "\<not> trail_char (lower_char (CHR ''s''))" "\<not> trail_char (lower_char (CHR ''N''))"
  "\<not> trail_char (lower_char (CHR ''o''))" "\<not> trail_char (lower_char (CHR ''I''))"
  by code_simp+

lemmas ieq_capture =
  ieq_solid [OF capture_letters(1)] ieq_solid [OF capture_letters(2)]
  ieq_solid [OF capture_letters(3)] ieq_solid [OF capture_letters(4)]
  ieq_solid [OF capture_letters(5)] ieq_solid [OF capture_letters(6)]

lemma captures_solid_yes_no: "captures_solid re_yes_no"
proof -
  have "captures_solid (Grp 1 (Alt (ilit ''Yes'') (ilit ''No'')))"
    unfolding captures_solid_def
    by (auto simp: ilit_def step_chr_def open_group_def close_group_def caps_of_def solid_def
        split: list.splits if_splits dest: ieq_capture)
  moreover have "keeps_caps Wb"
    by (simp add: keeps_caps_no_groups)
  ultimately show ?thesis
    unfolding re_yes_no_def by (rule captures_solid_Seq2)
qed


lemma captures_solid_roman: "captures_solid re_roman"
  unfolding captures_solid_def re_roman_def
  by (auto simp: ilit_def step_chr_def open_group_def close_group_def caps_of_def solid_def
        matches_Chr rep_m_Suc rep_m_0 eval_nat_numeral
      split: list.splits if_splits dest: ieq_capture)

lemma captures_solid_patterns:
  "captures_solid re_hazardous_substance" "captures_solid re_dangerous_good"
  "captures_solid re_packing_group"
proof -
  have k: "keeps_caps (ilit w)" "keeps_caps label_sep" "keeps_caps Wb" "keeps_caps Eps"
    "keeps_caps (opt (Chr p))" "keeps_caps (plus (Chr p))" for w p
    by (rule keeps_caps_no_groups, simp add: ngroups_ilit ngroups_label_sep opt_def plus_def)+
  have y: "captures_solid (Seq re_yes_no Eps)"
    by (rule captures_solid_Seq2 [OF captures_solid_yes_no k(4)])
  have h: "re_hazardous_substance =
          Seq (ilit ''Hazardous Substance'') (Seq label_sep (Seq re_yes_no Eps))"
    by (simp add: re_hazardous_substance_def seqs_def)
  show "captures_solid re_hazardous_substance"
    unfolding h by (rule captures_solid_Seq1 [OF k(1) captures_solid_Seq1 [OF k(2) y]])
  have d: "re_dangerous_good =
          Seq (ilit ''Dangerous Good'') (Seq (opt (Chr (ieq (CHR ''s''))))
            (Seq label_sep (Seq re_yes_no Eps)))"
    by (simp add: re_dangerous_good_def seqs_def)
  show "captures_solid re_dangerous_good"
    unfolding d
    by (rule captures_solid_Seq1 [OF k(1) captures_solid_Seq1 [OF k(5)
          captures_solid_Seq1 [OF k(2) y]]])
  have r: "captures_solid (Seq re_roman (Seq Wb Eps))"
    by (rule captures_solid_Seq2 [OF captures_solid_roman]) (simp add: keeps_caps_no_groups)
  have p: "re_packing_group =
          Seq (ilit ''Packing'') (Seq (plus (Chr is_space)) (Seq (ilit ''Group'')
            (Seq label_sep (Seq re_roman (Seq Wb Eps)))))"
    by (simp add: re_packing_group_def seqs_def)
  show "captures_solid re_packing_group"
    unfolding p
    by (rule captures_solid_Seq1 [OF k(1) captures_solid_Seq1 [OF k(6)
          captures_solid_Seq1 [OF k(1) captures_solid_Seq1 [OF k(2) r]]]])
qed

lemma search_at_state:
  "search_at r pv s = Some m \<Longrightarrow>
   \<exists>pv' s' st. st \<in> set (matches (Grp 0 r) (pv', s', [], [])) \<and> m_caps m = caps_of st"
proof (induction s arbitrary: pv m)
  case Nil
  then obtain st more where st: "matches (Grp 0 r) (pv, [], [], []) = st # more" "m = mk_match st"
    by (auto simp del: matches.simps split: list.splits)
  have "st \<in> set (matches (Grp 0 r) (pv, [], [], []))"
    by (simp only: st(1) list.set_intros)
  moreover have "m_caps m = caps_of st"
    using st(2) by (cases st) (simp add: mk_match_def caps_of_def)
  ultimately show ?case by blast
next
  case (Cons c s)
  show ?case
  proof (cases "matches (Grp 0 r) (pv, c # s, [], [])")
    case Nil
    then obtain m' where m': "search_at r (Some c) s = Some m'" "m = shift_match c m'"
      using Cons.prems by (auto simp del: matches.simps)
    then show ?thesis using Cons.IH [OF m'(1)] by (simp add: shift_match_def del: matches.simps)
  next
    case found: (Cons st more)
    then have m: "m = mk_match st" using Cons.prems by (simp del: matches.simps)
    have "st \<in> set (matches (Grp 0 r) (pv, c # s, [], []))"
      by (simp only: found list.set_intros)
    moreover have "m_caps m = caps_of st"
      using m by (cases st) (simp add: mk_match_def caps_of_def)
    ultimately show ?thesis by blast
  qed
qed

lemma caps_of_close_group:
  "caps_of (close_group 0 st) = caps_of st \<or> (\<exists>w. caps_of (close_group 0 st) = (0, w) # caps_of st)"
  by (cases st) (auto simp: close_group_def caps_of_def split: list.splits)

lemma captured_group_1:
  assumes "captures_solid r" "re_search r t = Some m"
  shows "\<exists>g. m_group m 1 = Some g \<and> solid g"
proof -
  obtain pv' s' st where st: "st \<in> set (matches (Grp 0 r) (pv', s', [], []))"
    "m_caps m = caps_of st"
    using search_at_state assms(2) unfolding re_search_def by blast
  then obtain st1 where st1: "st1 \<in> set (matches r (open_group (pv', s', [], [])))"
    "st = close_group 0 st1"
    by auto
  obtain g where g: "caps_of st1 = (1, g) # caps_of (open_group (pv', s', [], []))" "solid g"
    using assms(1) st1(1) unfolding captures_solid_def by blast
  have "caps_of st1 = [(1, g)]"
    using g(1) by (simp add: open_group_def caps_of_def)
  then have "map_of (caps_of st) 1 = Some g"
    using caps_of_close_group [of st1] st1(2) by auto
  then show ?thesis using st(2) g(2) by (auto simp: m_group_def)
qed

lemma solid_value: "solid g \<Longrightarrow> drop_trailing (strip g) = g"
proof -
  assume s: "solid g"
  then have e: "g \<noteq> []" "\<not> trail_char (hd g)" "\<not> trail_char (last g)"
    by (auto simp: solid_def)
  then have "\<not> is_space (hd g)" "\<not> is_space (last g)"
    by (auto simp: trail_char_def)
  then have "strip g = g" by (intro strip_id) simp
  moreover have "dropWhile trail_char (rev g) = rev g"
    using e by (cases g rule: rev_cases) auto
  ultimately show ?thesis by (simp add: drop_trailing_trail_char)
qed

text \<open>A pattern with one group that captures such a string never yields the empty string.\<close>

lemma find_first_solid:
  assumes "captures_solid r" "ngroups r = 1" "find_first [r] t = Some v"
  shows "v \<noteq> []"
proof -
  obtain m where m: "re_search r t = Some m"
    "v = drop_trailing (strip (located_value r m))"
    using assms(3) by (auto simp: re_sub_trailing match_value_located split: option.splits)
  obtain g where g: "m_group m 1 = Some g" "solid g"
    using captured_group_1 [OF assms(1) m(1)] by blast
  have "m_groups r m = [Some g]"
    using g(1) assms(2) by (simp add: m_groups_def)
  then have "located_value r m = g"
    using g(2) by (simp add: located_value_def captured_groups_def solid_def)
  then show ?thesis
    using m(2) g(2) by (simp add: solid_value solid_def)
qed

lemma ngroups_direct:
  "ngroups re_hazardous_substance = 1" "ngroups re_dangerous_good = 1"
  "ngroups re_packing_group = 1"
  by (simp_all add: re_hazardous_substance_def re_dangerous_good_def re_packing_group_def
        seqs_def ngroups_ilit ngroups_label_sep re_yes_no_def re_roman_def opt_def plus_def)

lemma direct_pass_truthy:
  "find_first (patterns_for ''hazardous_substance'') t \<noteq> None \<Longrightarrow>
     truthy (find_first (patterns_for ''hazardous_substance'') t)"
  "find_first (patterns_for ''dangerous_good'') t \<noteq> None \<Longrightarrow>
     truthy (find_first (patterns_for ''dangerous_good'') t)"
  "find_first (patterns_for ''packing_group'') t \<noteq> None \<Longrightarrow>
     truthy (find_first (patterns_for ''packing_group'') t)"
  unfolding patterns_for_keys
  using find_first_solid [OF captures_solid_patterns(1) ngroups_direct(1), of t]
    find_first_solid [OF captures_solid_patterns(2) ngroups_direct(2), of t]
    find_first_solid [OF captures_solid_patterns(3) ngroups_direct(3), of t]
  by (auto simp del: find_first.simps)

lemma hazardous_substance_direct:
  "truthy (find_first (patterns_for ''hazardous_substance'') (normalize_whitespace s)) \<Longrightarrow>
   hazardous_substance (extract_fields s) =
     find_first (patterns_for ''hazardous_substance'') (normalize_whitespace s)"
  by (simp add: extract_fields_def Let_def infer_flags_def infer_frame)
     (simp add: infer_hazardous_substance_def)

lemma dangerous_good_direct:
  "truthy (find_first (patterns_for ''dangerous_good'') (normalize_whitespace s)) \<Longrightarrow>
   dangerous_good (extract_fields s) =
     find_first (patterns_for ''dangerous_good'') (normalize_whitespace s)"
  by (simp add: extract_fields_def Let_def infer_flags_def infer_frame)
     (simp add: infer_dangerous_good_def infer_frame)

text \<open>
  C2. For every record and every text, the inference pass changes no field other than
  \<open>hazardous_substance\<close>, \<open>dangerous_good\<close> and \<open>packing_group\<close>; it changes each
  of these three only when the field is unset, and a field that is set keeps its
  value. A field is set when it holds a non-empty string, which is what the test
  \<open>if not record.field\<close> of the source takes as set and the only thing the direct pass
  stores: for every text, a value that the direct pass found for one of the three
  fields is the value of that field in the record of \<open>extract_fields\<close>.
\<close>

theorem infer_flags_frame:
  "product_name (infer_flags r t) = product_name r \<and>
   vendor (infer_flags r t) = vendor r \<and>
   quantity (infer_flags r t) = quantity r \<and>
   location (infer_flags r t) = location r \<and>
   cas_number (infer_flags r t) = cas_number r \<and>
   sds_available (infer_flags r t) = sds_available r \<and>
   issue_date (infer_flags r t) = issue_date r \<and>
   dangerous_goods_class (infer_flags r t) = dangerous_goods_class r \<and>
   description (infer_flags r t) = description r \<and>
   subsidiary_risks (infer_flags r t) = subsidiary_risks r \<and>
   consequence (infer_flags r t) = consequence r \<and>
   likelihood (infer_flags r t) = likelihood r \<and>
   risk_rating (infer_flags r t) = risk_rating r \<and>
   swp_requirement (infer_flags r t) = swp_requirement r \<and>
   comments_swp (infer_flags r t) = comments_swp r \<and>
   barcode (infer_flags r t) = barcode r \<and>
   (hazardous_substance (infer_flags r t) \<noteq> hazardous_substance r \<longrightarrow>
      \<not> truthy (hazardous_substance r)) \<and>
   (dangerous_good (infer_flags r t) \<noteq> dangerous_good r \<longrightarrow>
      \<not> truthy (dangerous_good r)) \<and>
   (packing_group (infer_flags r t) \<noteq> packing_group r \<longrightarrow>
      \<not> truthy (packing_group r)) \<and>
   (hazardous_substance r = Some v \<and> v \<noteq> [] \<longrightarrow>
      hazardous_substance (infer_flags r t) = Some v) \<and>
   (dangerous_good r = Some v \<and> v \<noteq> [] \<longrightarrow>
      dangerous_good (infer_flags r t) = Some v) \<and>
   (packing_group r = Some v \<and> v \<noteq> [] \<longrightarrow>
      packing_group (infer_flags r t) = Some v) \<and>
   (find_first (patterns_for ''hazardous_substance'') (normalize_whitespace s) \<noteq> None \<longrightarrow>
      hazardous_substance (extract_fields s) =
        find_first (patterns_for ''hazardous_substance'') (normalize_whitespace s)) \<and>
   (find_first (patterns_for ''dangerous_good'') (normalize_whitespace s) \<noteq> None \<longrightarrow>
      dangerous_good (extract_fields s) =
        find_first (patterns_for ''dangerous_good'') (normalize_whitespace s)) \<and>
   (find_first (patterns_for ''packing_group'') (normalize_whitespace s) \<noteq> None \<longrightarrow>
      packing_group (extract_fields s) =
        find_first (patterns_for ''packing_group'') (normalize_whitespace s))"
proof -
  have frame: "(hazardous_substance (infer_flags r t) \<noteq> hazardous_substance r \<longrightarrow>
        \<not> truthy (hazardous_substance r)) \<and>
     (dangerous_good (infer_flags r t) \<noteq> dangerous_good r \<longrightarrow>
        \<not> truthy (dangerous_good r)) \<and>
     (packing_group (infer_flags r t) \<noteq> packing_group r \<longrightarrow>
        \<not> truthy (packing_group r))"
    using infer_flags_keeps_truthy [of r t] by blast
  have kept: "(hazardous_substance r = Some v \<and> v \<noteq> [] \<longrightarrow>
        hazardous_substance (infer_flags r t) = Some v) \<and>
     (dangerous_good r = Some v \<and> v \<noteq> [] \<longrightarrow>
        dangerous_good (infer_flags r t) = Some v) \<and>
     (packing_group r = Some v \<and> v \<noteq> [] \<longrightarrow>
        packing_group (infer_flags r t) = Some v)"
    using infer_flags_keeps_truthy [of r t] by (metis truthy.simps(2))
  have direct: "(find_first (patterns_for ''hazardous_substance'') (normalize_whitespace s) \<noteq> None \<longrightarrow>
        hazardous_substance (extract_fields s) =
          find_first (patterns_for ''hazardous_substance'') (normalize_whitespace s)) \<and>
     (find_first (patterns_for ''dangerous_good'') (normalize_whitespace s) \<noteq> None \<longrightarrow>
        dangerous_good (extract_fields s) =
          find_first (patterns_for ''dangerous_good'') (normalize_whitespace s)) \<and>
     (find_first (patterns_for ''packing_group'') (normalize_whitespace s) \<noteq> None \<longrightarrow>
        packing_group (extract_fields s) =
          find_first (patterns_for ''packing_group'') (normalize_whitespace s))"
    using direct_pass_truthy [of "normalize_whitespace s"] hazardous_substance_direct [of s]
      dangerous_good_direct [of s] packing_group_direct [of s]
    by blast
  show ?thesis
    using frame kept direct by (simp only: infer_flags_other_fields) blast
qed

theorem infer_flags_frame_witness:
  "hazardous_substance
     (infer_flags (new_record\<lparr>hazardous_substance := Some ''Yes'',
                     dangerous_goods_class := Some ''3'', packing_group := Some ''Yes''\<rparr>) []) =
     Some ''Yes'' \<and>
   packing_group
     (infer_flags (new_record\<lparr>hazardous_substance := Some ''Yes'',
                     dangerous_goods_class := Some ''3'', packing_group := Some ''Yes''\<rparr>) []) =
     Some ''Yes'' \<and>
   dangerous_good
     (infer_flags (new_record\<lparr>hazardous_substance := Some ''Yes'',
                     dangerous_goods_class := Some ''3'', packing_group := Some ''Yes''\<rparr>) []) \<noteq>
     None \<and>
   \<not> truthy (dangerous_good (new_record\<lparr>hazardous_substance := Some ''Yes'',
                     dangerous_goods_class := Some ''3'', packing_group := Some ''Yes''\<rparr>)) \<and>
   hazardous_substance (extract_fields ''Hazardous Substance: No'') = Some ''No''"
proof -
  let ?r = "new_record\<lparr>hazardous_substance := Some ''Yes'', dangerous_goods_class := Some ''3'',
              packing_group := Some ''Yes''\<rparr>"
  have d: "dangerous_good (infer_flags ?r []) = Some ''Yes''"
    by code_simp
  have n: "normalize_whitespace ''Hazardous Substance: No'' = ''Hazardous Substance: No''"
    by code_simp
  have f: "find_first (patterns_for ''hazardous_substance'') ''Hazardous Substance: No'' = Some ''No''"
    by code_simp
  show ?thesis
    using infer_flags_frame [of ?r "[]" "''Yes''" "''Hazardous Substance: No''"] d
    by (simp add: new_record_def n f)
qed

end
